theory Spec2Isabelle
  imports Complex_Main
begin

section \<open>closepackstack: lattice, sites, structures and the stacking build\<close>

text \<open>
  A shallow embedding of \<^verbatim>\<open>closepackstack.py\<close>. Python floats and numpy scalars are
  idealised as \<^typ>\<open>real\<close>; Python integers are \<^typ>\<open>int\<close>. Objects live in an explicit
  store, one table per class, since a Lattice object is shared by a Structure and its
  sites and the setters write through the references: a reference is a number,
  allocation takes the next free one, attribute assignment updates the table.
  Exceptions are values of the type \<open>error\<close>, and a function that may raise returns
  \<open>error + 'a\<close>.
\<close>

subsection \<open>Errors and helpers\<close>

datatype error = ZeroDivisionError | IndexError | UnboundLocalError | StopIteration

definition bindE :: "error + 'a \<Rightarrow> ('a \<Rightarrow> error + 'b) \<Rightarrow> error + 'b" where
  "bindE m f = (case m of Inl e \<Rightarrow> Inl e | Inr v \<Rightarrow> f v)"

text \<open>
  Division of two floats. Python raises \<^verbatim>\<open>ZeroDivisionError\<close> when both operands are
  built-in floats; when one of them is a numpy scalar the result is \<^verbatim>\<open>inf\<close> or
  \<^verbatim>\<open>nan\<close>, which has no counterpart in \<^typ>\<open>real\<close>. The model stops with
  \<open>ZeroDivisionError\<close> in both cases.
\<close>

definition fdiv :: "real \<Rightarrow> real \<Rightarrow> error + real" where
  "fdiv p q = (if q = 0 then Inl ZeroDivisionError else Inr (p / q))"

text \<open>
  Reading \<^verbatim>\<open>xs[i]\<close> as Python does: an index from \<open>0\<close> up to the length reads from the
  front, one from \<open>-length\<close> up to \<open>-1\<close> reads from the back, any other raises.
\<close>

definition getitem :: "'a list \<Rightarrow> int \<Rightarrow> error + 'a" where
  "getitem xs i =
     (if 0 \<le> i \<and> i < int (length xs) then Inr (xs ! nat i)
      else if - int (length xs) \<le> i \<and> i < 0 then Inr (xs ! nat (int (length xs) + i))
      else Inl IndexError)"

subsection \<open>Classes as records\<close>

type_synonym ref = nat

text \<open>\<^verbatim>\<open>class Lattice\<close>: the attributes \<^verbatim>\<open>_a, _b, _c, _al, _be, _ga\<close>.\<close>

record Lattice =
  lat_a :: real
  lat_b :: real
  lat_c :: real
  lat_al :: real
  lat_be :: real
  lat_ga :: real

text \<open>
  \<^verbatim>\<open>class Site(Lattice)\<close>: the inherited six scalars, the reference \<^verbatim>\<open>_latt\<close>, the
  decorations, and the attributes \<^verbatim>\<open>_fx, _fy, _fz, _x, _y, _z\<close>.
\<close>

record Site = Lattice +
  site_latt :: ref
  site_name :: string
  site_specie :: string
  site_occ :: real
  site_biso :: real
  site_fx :: real
  site_fy :: real
  site_fz :: real
  site_x :: real
  site_y :: real
  site_z :: real

text \<open>
  \<^verbatim>\<open>class Structure(Lattice, Iterable)\<close>: the inherited six scalars, the list
  \<^verbatim>\<open>sites\<close> of references to Site objects, the reference \<^verbatim>\<open>_latt\<close> and the cursor
  \<^verbatim>\<open>current, lo, high\<close> of its hand-written iterator.
\<close>

record Structure = Lattice +
  st_sites :: "ref list"
  st_latt :: ref
  st_current :: int
  st_lo :: int
  st_high :: int

text \<open>\<^verbatim>\<open>class PeriodicCycle\<close>.\<close>

record 'a PeriodicCycle =
  pc_iterable :: "'a list"
  pc_current :: int
  pc_low :: int
  pc_high :: int

text \<open>
  The store: for each class the objects by reference and the number of objects allocated
  so far. A reference below the count is allocated; allocation takes the count as the new
  reference. A reference at or above the count denotes no object of the program (the
  table is total, so it reads some record there); where a property follows a reference,
  it says which references it takes to be allocated.
\<close>

record heap =
  lattices :: "ref \<Rightarrow> Lattice"
  n_lattices :: nat
  siteobjs :: "ref \<Rightarrow> Site"
  n_siteobjs :: nat
  structs :: "ref \<Rightarrow> Structure"
  n_structs :: nat

definition get_latt :: "heap \<Rightarrow> ref \<Rightarrow> Lattice" where
  "get_latt h r = lattices h r"

definition get_site :: "heap \<Rightarrow> ref \<Rightarrow> Site" where
  "get_site h r = siteobjs h r"

definition get_struct :: "heap \<Rightarrow> ref \<Rightarrow> Structure" where
  "get_struct h r = structs h r"

definition put_latt :: "heap \<Rightarrow> ref \<Rightarrow> Lattice \<Rightarrow> heap" where
  "put_latt h r l = h\<lparr>lattices := (lattices h)(r := l)\<rparr>"

definition put_site :: "heap \<Rightarrow> ref \<Rightarrow> Site \<Rightarrow> heap" where
  "put_site h r s = h\<lparr>siteobjs := (siteobjs h)(r := s)\<rparr>"

definition put_struct :: "heap \<Rightarrow> ref \<Rightarrow> Structure \<Rightarrow> heap" where
  "put_struct h r s = h\<lparr>structs := (structs h)(r := s)\<rparr>"

definition new_latt :: "heap \<Rightarrow> Lattice \<Rightarrow> heap \<times> ref" where
  "new_latt h l =
     (h\<lparr>lattices := (lattices h)(n_lattices h := l), n_lattices := Suc (n_lattices h)\<rparr>,
      n_lattices h)"

definition new_site :: "heap \<Rightarrow> Site \<Rightarrow> heap \<times> ref" where
  "new_site h s =
     (h\<lparr>siteobjs := (siteobjs h)(n_siteobjs h := s), n_siteobjs := Suc (n_siteobjs h)\<rparr>,
      n_siteobjs h)"

definition new_struct :: "heap \<Rightarrow> Structure \<Rightarrow> heap \<times> ref" where
  "new_struct h s =
     (h\<lparr>structs := (structs h)(n_structs h := s), n_structs := Suc (n_structs h)\<rparr>,
      n_structs h)"

subsection \<open>Lattice\<close>

text \<open>
  \<^verbatim>\<open>Lattice.list\<close>, \<^verbatim>\<open>__hash__\<close> and \<^verbatim>\<open>__eq__\<close>. They read the six scalars through the
  properties \<^verbatim>\<open>a .. ga\<close>, which Site and Structure inherit, so they are defined on
  every extension of the record. \<^verbatim>\<open>list\<close> returns a fresh array of the six scalars: a
  Lattice value that is no object of the store. Python's built-in \<^verbatim>\<open>hash\<close> of a tuple of floats is
  the parameter \<open>H\<close>. The \<^verbatim>\<open>isinstance(other, Lattice)\<close> test of \<^verbatim>\<open>__eq__\<close> holds by
  typing.
\<close>

definition Lattice_list :: "'z Lattice_scheme \<Rightarrow> Lattice" where
  "Lattice_list l =
     \<lparr>lat_a = lat_a l, lat_b = lat_b l, lat_c = lat_c l,
      lat_al = lat_al l, lat_be = lat_be l, lat_ga = lat_ga l\<rparr>"

definition Lattice_hash :: "(real list \<Rightarrow> int) \<Rightarrow> 'z Lattice_scheme \<Rightarrow> int" where
  "Lattice_hash H l = H [lat_a l, lat_b l, lat_c l, lat_al l, lat_be l, lat_ga l]"

definition Lattice_eq ::
  "(real list \<Rightarrow> int) \<Rightarrow> 'y Lattice_scheme \<Rightarrow> 'z Lattice_scheme \<Rightarrow> bool" where
  "Lattice_eq H l other = (Lattice_hash H l = Lattice_hash H other)"

text \<open>\<^verbatim>\<open>Lattice(a, b, c, al, be, ga)\<close>.\<close>

definition Lattice_init :: "real \<Rightarrow> real \<Rightarrow> real \<Rightarrow> real \<Rightarrow> real \<Rightarrow> real \<Rightarrow> Lattice" where
  "Lattice_init a b c al be ga =
     \<lparr>lat_a = a, lat_b = b, lat_c = c, lat_al = al, lat_be = be, lat_ga = ga\<rparr>"

subsection \<open>Site: coordinate setters\<close>

text \<open>
  The setters of \<^verbatim>\<open>x, y, z\<close> store the value and divide it by the site's own
  \<^verbatim>\<open>a, b, c\<close>; the setters of \<^verbatim>\<open>fx, fy, fz\<close> store the value and multiply.
\<close>

definition Site_set_x :: "Site \<Rightarrow> real \<Rightarrow> error + Site" where
  "Site_set_x s v =
     (let s1 = s\<lparr>site_x := v\<rparr>
      in bindE (fdiv (site_x s1) (lat_a s1)) (\<lambda>q. Inr (s1\<lparr>site_fx := q\<rparr>)))"

definition Site_set_y :: "Site \<Rightarrow> real \<Rightarrow> error + Site" where
  "Site_set_y s v =
     (let s1 = s\<lparr>site_y := v\<rparr>
      in bindE (fdiv (site_y s1) (lat_b s1)) (\<lambda>q. Inr (s1\<lparr>site_fy := q\<rparr>)))"

definition Site_set_z :: "Site \<Rightarrow> real \<Rightarrow> error + Site" where
  "Site_set_z s v =
     (let s1 = s\<lparr>site_z := v\<rparr>
      in bindE (fdiv (site_z s1) (lat_c s1)) (\<lambda>q. Inr (s1\<lparr>site_fz := q\<rparr>)))"

definition Site_set_fx :: "Site \<Rightarrow> real \<Rightarrow> Site" where
  "Site_set_fx s v = (let s1 = s\<lparr>site_fx := v\<rparr> in s1\<lparr>site_x := site_fx s1 * lat_a s1\<rparr>)"

definition Site_set_fy :: "Site \<Rightarrow> real \<Rightarrow> Site" where
  "Site_set_fy s v = (let s1 = s\<lparr>site_fy := v\<rparr> in s1\<lparr>site_y := site_fy s1 * lat_b s1\<rparr>)"

definition Site_set_fz :: "Site \<Rightarrow> real \<Rightarrow> Site" where
  "Site_set_fz s v = (let s1 = s\<lparr>site_fz := v\<rparr> in s1\<lparr>site_z := site_fz s1 * lat_c s1\<rparr>)"

text \<open>\<^verbatim>\<open>Site.fxyz\<close>: every read builds a fresh array.\<close>

definition Site_fxyz :: "Site \<Rightarrow> real list" where
  "Site_fxyz s = [site_fx s, site_fy s, site_fz s]"

subsection \<open>PeriodicCycle\<close>

definition PeriodicCycle_init :: "'a list \<Rightarrow> 'a PeriodicCycle" where
  "PeriodicCycle_init xs =
     \<lparr>pc_iterable = xs, pc_current = 0, pc_low = 0, pc_high = int (length xs) - 1\<rparr>"

text \<open>
  \<^verbatim>\<open>__next__\<close>: the cursor moves before the element is read, so it has moved also when
  the read raises; the exception then ends the caller, and the model returns only the
  error.
\<close>

definition PeriodicCycle_next :: "'a PeriodicCycle \<Rightarrow> error + ('a \<times> 'a PeriodicCycle)" where
  "PeriodicCycle_next pc =
     (let pc1 = (if pc_current pc > pc_high pc then pc\<lparr>pc_current := pc_low pc\<rparr> else pc);
          pc2 = pc1\<lparr>pc_current := pc_current pc1 + 1\<rparr>
      in bindE (getitem (pc_iterable pc2) (pc_current pc2 - 1)) (\<lambda>v. Inr (v, pc2)))"

text \<open>
  \<open>advance n pc\<close> calls \<^verbatim>\<open>next\<close> \<open>n + 1\<close> times and returns what the last call
  returns: the element of step \<open>n\<close>, counting from step 0.
\<close>

fun advance :: "nat \<Rightarrow> 'a PeriodicCycle \<Rightarrow> error + ('a \<times> 'a PeriodicCycle)" where
  "advance 0 pc = PeriodicCycle_next pc"
| "advance (Suc n) pc = bindE (PeriodicCycle_next pc) (\<lambda>(v, pc'). advance n pc')"

definition step_element :: "'a list \<Rightarrow> nat \<Rightarrow> error + 'a" where
  "step_element xs n = bindE (advance n (PeriodicCycle_init xs)) (\<lambda>(v, pc'). Inr v)"

subsection \<open>Site: lattice setters, construction, copy\<close>

text \<open>
  The setters of \<^verbatim>\<open>a, b, c\<close> that Site overrides: store the value in the site and in
  the lattice object the site refers to, then (the site has \<^verbatim>\<open>_x, _y, _z\<close> once
  \<^verbatim>\<open>__init__\<close> has run) assign \<^verbatim>\<open>fx = x / value\<close> through the setter of \<^verbatim>\<open>fx\<close>.
\<close>

definition Site_set_a :: "heap \<Rightarrow> ref \<Rightarrow> real \<Rightarrow> error + heap" where
  "Site_set_a h r v =
     (let h1 = put_site h r ((get_site h r)\<lparr>lat_a := v\<rparr>);
          l = site_latt (get_site h1 r);
          h2 = put_latt h1 l ((get_latt h1 l)\<lparr>lat_a := v\<rparr>)
      in bindE (fdiv (site_x (get_site h2 r)) v)
           (\<lambda>q. Inr (put_site h2 r (Site_set_fx (get_site h2 r) q))))"

definition Site_set_b :: "heap \<Rightarrow> ref \<Rightarrow> real \<Rightarrow> error + heap" where
  "Site_set_b h r v =
     (let h1 = put_site h r ((get_site h r)\<lparr>lat_b := v\<rparr>);
          l = site_latt (get_site h1 r);
          h2 = put_latt h1 l ((get_latt h1 l)\<lparr>lat_b := v\<rparr>)
      in bindE (fdiv (site_y (get_site h2 r)) v)
           (\<lambda>q. Inr (put_site h2 r (Site_set_fy (get_site h2 r) q))))"

definition Site_set_c :: "heap \<Rightarrow> ref \<Rightarrow> real \<Rightarrow> error + heap" where
  "Site_set_c h r v =
     (let h1 = put_site h r ((get_site h r)\<lparr>lat_c := v\<rparr>);
          l = site_latt (get_site h1 r);
          h2 = put_latt h1 l ((get_latt h1 l)\<lparr>lat_c := v\<rparr>)
      in bindE (fdiv (site_z (get_site h2 r)) v)
           (\<lambda>q. Inr (put_site h2 r (Site_set_fz (get_site h2 r) q))))"

text \<open>
  \<^verbatim>\<open>setlatt(listvalues)\<close>: the six assignments in order; \<^verbatim>\<open>al, be, ga\<close> go through
  the setters inherited from Lattice.
\<close>

definition Site_setlatt :: "heap \<Rightarrow> ref \<Rightarrow> Lattice \<Rightarrow> error + heap" where
  "Site_setlatt h r listvalues =
     bindE (Site_set_a h r (lat_a listvalues)) (\<lambda>h1.
     bindE (Site_set_b h1 r (lat_b listvalues)) (\<lambda>h2.
     bindE (Site_set_c h2 r (lat_c listvalues)) (\<lambda>h3.
     Inr (put_site h3 r ((get_site h3 r)
       \<lparr>lat_al := lat_al listvalues, lat_be := lat_be listvalues,
        lat_ga := lat_ga listvalues\<rparr>)))))"

text \<open>
  The setter of \<^verbatim>\<open>Site.latt\<close> on a constructed site (the \<^verbatim>\<open>else\<close> branch: the site
  has \<^verbatim>\<open>_latt\<close>).
\<close>

definition Site_set_latt :: "heap \<Rightarrow> ref \<Rightarrow> ref \<Rightarrow> error + heap" where
  "Site_set_latt h r lattice =
     (let h1 = put_site h r ((get_site h r)\<lparr>site_latt := lattice\<rparr>)
      in Site_setlatt h1 r (Lattice_list (get_latt h1 (site_latt (get_site h1 r)))))"

text \<open>
  \<^verbatim>\<open>Site(specie, occupancy, fx, fy, fz, Biso, lattice)\<close>. The new object has no
  \<^verbatim>\<open>_latt\<close> (the setter of \<^verbatim>\<open>latt\<close> only stores the reference) and no \<^verbatim>\<open>_x, _y, _z\<close>
  (the setters of \<^verbatim>\<open>a, b, c\<close> only store the value, in the site and in the lattice)
  until the coordinates are assigned: first the fractional ones, then the absolute
  ones. The coordinate fields of \<open>s0\<close> stand for attributes not yet bound; each is
  assigned before it is read.
\<close>

definition Site_init ::
  "heap \<Rightarrow> string \<Rightarrow> real \<Rightarrow> real \<Rightarrow> real \<Rightarrow> real \<Rightarrow> real \<Rightarrow> ref \<Rightarrow> error + (heap \<times> ref)" where
  "Site_init h specie occupancy fx fy fz Biso lattice =
     (let l = Lattice_list (get_latt h lattice);
          h1 = put_latt h lattice
                 ((get_latt h lattice)\<lparr>lat_a := lat_a l, lat_b := lat_b l, lat_c := lat_c l\<rparr>);
          s0 = \<lparr>lat_a = lat_a l, lat_b = lat_b l, lat_c = lat_c l,
                lat_al = lat_al l, lat_be = lat_be l, lat_ga = lat_ga l,
                site_latt = lattice, site_name = specie, site_specie = specie,
                site_occ = occupancy, site_biso = Biso,
                site_fx = 0, site_fy = 0, site_fz = 0, site_x = 0, site_y = 0, site_z = 0\<rparr>;
          s1 = Site_set_fx s0 fx;
          s2 = Site_set_fy s1 fy;
          s3 = Site_set_fz s2 fz
      in bindE (Site_set_x s3 (fx * lat_a s3)) (\<lambda>s4.
         bindE (Site_set_y s4 (fy * lat_b s4)) (\<lambda>s5.
         bindE (Site_set_z s5 (fz * lat_c s5)) (\<lambda>s6.
         Inr (new_site h1 s6)))))"

text \<open>
  \<^verbatim>\<open>Site.copy\<close>, a deep copy: a new Lattice object copied from the site's lattice and a
  new Site object that refers to it.
\<close>

definition Site_copy :: "heap \<Rightarrow> ref \<Rightarrow> heap \<times> ref" where
  "Site_copy h r =
     (let s = get_site h r;
          (h1, l) = new_latt h (get_latt h (site_latt s))
      in new_site h1 (s\<lparr>site_latt := l\<rparr>))"

subsection \<open>Structure\<close>

text \<open>The loop \<^verbatim>\<open>for site in self.sites: site.latt = self._latt\<close> of the setter of \<^verbatim>\<open>latt\<close>.\<close>

fun Structure_push_latt :: "heap \<Rightarrow> ref \<Rightarrow> ref list \<Rightarrow> error + heap" where
  "Structure_push_latt h S [] = Inr h"
| "Structure_push_latt h S (site # rest) =
     bindE (Site_set_latt h site (st_latt (get_struct h S)))
       (\<lambda>h'. Structure_push_latt h' S rest)"

definition Structure_set_latt :: "heap \<Rightarrow> ref \<Rightarrow> ref \<Rightarrow> error + heap" where
  "Structure_set_latt h S lattice =
     (let h1 = put_struct h S ((get_struct h S)\<lparr>st_latt := lattice\<rparr>)
      in Structure_push_latt h1 S (st_sites (get_struct h1 S)))"

text \<open>
  The setters of \<^verbatim>\<open>a, b, c\<close> that Structure overrides: store the value in the structure
  and in its lattice object, then assign \<^verbatim>\<open>self.latt = self.latt\<close>.
\<close>

definition Structure_set_a :: "heap \<Rightarrow> ref \<Rightarrow> real \<Rightarrow> error + heap" where
  "Structure_set_a h S v =
     (let h1 = put_struct h S ((get_struct h S)\<lparr>lat_a := v\<rparr>);
          l = st_latt (get_struct h1 S);
          h2 = put_latt h1 l ((get_latt h1 l)\<lparr>lat_a := v\<rparr>)
      in Structure_set_latt h2 S (st_latt (get_struct h2 S)))"

definition Structure_set_b :: "heap \<Rightarrow> ref \<Rightarrow> real \<Rightarrow> error + heap" where
  "Structure_set_b h S v =
     (let h1 = put_struct h S ((get_struct h S)\<lparr>lat_b := v\<rparr>);
          l = st_latt (get_struct h1 S);
          h2 = put_latt h1 l ((get_latt h1 l)\<lparr>lat_b := v\<rparr>)
      in Structure_set_latt h2 S (st_latt (get_struct h2 S)))"

definition Structure_set_c :: "heap \<Rightarrow> ref \<Rightarrow> real \<Rightarrow> error + heap" where
  "Structure_set_c h S v =
     (let h1 = put_struct h S ((get_struct h S)\<lparr>lat_c := v\<rparr>);
          l = st_latt (get_struct h1 S);
          h2 = put_latt h1 l ((get_latt h1 l)\<lparr>lat_c := v\<rparr>)
      in Structure_set_latt h2 S (st_latt (get_struct h2 S)))"

text \<open>
  \<^verbatim>\<open>Structure(sites, lattice)\<close>: \<^verbatim>\<open>sites\<close>, then \<^verbatim>\<open>latt\<close> through its setter, then
  \<^verbatim>\<open>Lattice.__init__\<close> with the six scalars read from the lattice (\<^verbatim>\<open>a, b, c\<close> through
  the setters above), then the cursor. The scalar and cursor fields of the new object
  stand for attributes not yet bound; each is assigned before it is read.
\<close>

definition Structure_init :: "heap \<Rightarrow> ref list \<Rightarrow> ref \<Rightarrow> error + (heap \<times> ref)" where
  "Structure_init h sites lattice =
     (let (h1, S) = new_struct h
            \<lparr>lat_a = 0, lat_b = 0, lat_c = 0, lat_al = 0, lat_be = 0, lat_ga = 0,
             st_sites = sites, st_latt = lattice, st_current = 0, st_lo = 0, st_high = 0\<rparr>
      in bindE (Structure_set_latt h1 S lattice) (\<lambda>h2.
         let l = Lattice_list (get_latt h2 (st_latt (get_struct h2 S)))
         in bindE (Structure_set_a h2 S (lat_a l)) (\<lambda>h3.
            bindE (Structure_set_b h3 S (lat_b l)) (\<lambda>h4.
            bindE (Structure_set_c h4 S (lat_c l)) (\<lambda>h5.
            let st = get_struct h5 S
            in Inr (put_struct h5 S
                 (st\<lparr>lat_al := lat_al l, lat_be := lat_be l, lat_ga := lat_ga l,
                    st_current := 0, st_lo := 0,
                    st_high := int (length (st_sites st)) - 1\<rparr>), S))))))"

text \<open>
  \<^verbatim>\<open>Structure.__next__\<close>: the new state of the cursor and the site returned or the
  exception raised. Past \<^verbatim>\<open>high\<close> the cursor is reset and \<^verbatim>\<open>StopIteration\<close> raised.
\<close>

definition Structure_next :: "Structure \<Rightarrow> Structure \<times> (error + ref)" where
  "Structure_next st =
     (if st_current st > st_high st then (st\<lparr>st_current := 0\<rparr>, Inl StopIteration)
      else (let st1 = st\<lparr>st_current := st_current st + 1\<rparr>
            in (st1, getitem (st_sites st1) (st_current st1 - 1))))"

subsection \<open>build\<close>

type_synonym vec3 = "real \<times> real \<times> real"

definition vec_add :: "vec3 \<Rightarrow> vec3 \<Rightarrow> vec3" where
  "vec_add u v = (case u of (ux, uy, uz) \<Rightarrow> case v of (vx, vy, vz) \<Rightarrow> (ux + vx, uy + vy, uz + vz))"

definition vec_z :: "vec3 \<Rightarrow> real" where
  "vec_z v = snd (snd v)"

text \<open>Python's \<^verbatim>\<open>%\<close> on integers: the sign of the divisor, an exception on zero.\<close>

definition py_mod :: "int \<Rightarrow> int \<Rightarrow> error + int" where
  "py_mod p q = (if q = 0 then Inl ZeroDivisionError else Inr (p mod q))"

text \<open>
  The body of \<^verbatim>\<open>for site in layer\<close>: copy the site, add to the copy's \<^verbatim>\<open>x, y, z\<close>
  through their setters, return the copy (the caller appends it to \<^verbatim>\<open>sites\<close>).
\<close>

definition emit_site :: "heap \<Rightarrow> ref \<Rightarrow> real \<Rightarrow> real \<Rightarrow> real \<Rightarrow> ref \<Rightarrow> error + (heap \<times> ref)" where
  "emit_site h layer vx vy oz site =
     (let (h1, rv) = Site_copy h site
      in bindE (Site_set_x (get_site h1 rv)
                  (site_x (get_site h1 rv) + vx * lat_a (get_struct h1 layer))) (\<lambda>s1.
         let h2 = put_site h1 rv s1
         in bindE (Site_set_y (get_site h2 rv)
                     (site_y (get_site h2 rv) + vy * lat_b (get_struct h2 layer))) (\<lambda>s2.
            let h3 = put_site h2 rv s2
            in bindE (Site_set_z (get_site h3 rv) (site_z (get_site h3 rv) + oz)) (\<lambda>s3.
               Inr (put_site h3 rv s3, rv)))))"

lemma bindE_Inr [simp]: "bindE (Inr v) f = f v"
  by (simp add: bindE_def)

lemma bindE_Inl [simp]: "bindE (Inl e) f = Inl e"
  by (simp add: bindE_def)

lemma bindE_eq_Inr:
  "bindE m f = Inr r \<longleftrightarrow> (\<exists>v. m = Inr v \<and> f v = Inr r)"
  by (cases m) simp_all

lemma emit_site_structs:
  "emit_site h layer vx vy oz site = Inr (h', rv) \<Longrightarrow> structs h' = structs h"
  by (auto simp: emit_site_def Site_copy_def new_latt_def new_site_def put_site_def
        Let_def bindE_eq_Inr split: prod.splits)

text \<open>
  The loop \<^verbatim>\<open>for site in layer\<close>. A Structure is its own iterator: every round calls
  \<^verbatim>\<open>__next__\<close> on the layer, which moves the layer's cursor in the store; the loop ends
  at \<^verbatim>\<open>StopIteration\<close>, and any other exception ends the caller.
\<close>

function layer_loop ::
  "heap \<Rightarrow> ref \<Rightarrow> real \<Rightarrow> real \<Rightarrow> real \<Rightarrow> ref list \<Rightarrow> error + (heap \<times> ref list)" where
  "layer_loop h layer vx vy oz sites =
     (case Structure_next (get_struct h layer) of
        (st', Inl e) \<Rightarrow>
          (if e = StopIteration then Inr (put_struct h layer st', sites) else Inl e)
      | (st', Inr site) \<Rightarrow>
          (case emit_site (put_struct h layer st') layer vx vy oz site of
             Inl e \<Rightarrow> Inl e
           | Inr (h', rv) \<Rightarrow> layer_loop h' layer vx vy oz (sites @ [rv])))"
  by pat_completeness auto
termination
proof (relation "measure (\<lambda>(h, layer, vx, vy, oz, sites).
          nat (st_high (structs h layer) + 1 - st_current (structs h layer)))", goal_cases)
  case 1
  show ?case by simp
next
  case (2 h layer vx vy oz sites st' res site r h' rv)
  from 2(3,4) have "emit_site (put_struct h layer st') layer vx vy oz site = Inr (h', rv)"
    by simp
  then have "structs h' = structs (put_struct h layer st')"
    by (rule emit_site_structs)
  moreover from 2(1,2) have "st_current (get_struct h layer) \<le> st_high (get_struct h layer)"
    and "st_current st' = st_current (get_struct h layer) + 1"
    and "st_high st' = st_high (get_struct h layer)"
    by (auto simp: Structure_next_def Let_def split: if_splits)
  ultimately show ?case
    by (simp add: put_struct_def get_struct_def)
qed

declare layer_loop.simps [simp del]

text \<open>
  The state of the loop of \<^verbatim>\<open>build\<close>: the store and the local variables. \<^verbatim>\<open>layer\<close> is
  unbound until the first round.
\<close>

record build_state =
  bs_heap :: heap
  bs_ss :: "(ref \<times> vec3) PeriodicCycle"
  bs_iv :: "vec3 PeriodicCycle"
  bs_origin :: vec3
  bs_sites :: "ref list"
  bs_layer :: "ref option"

text \<open>One round of \<^verbatim>\<open>for idx in range(Nblocks * blockperiod)\<close>.\<close>

definition build_step :: "int \<Rightarrow> nat \<Rightarrow> build_state \<Rightarrow> error + build_state" where
  "build_step blockperiod idx st =
     bindE (PeriodicCycle_next (bs_ss st)) (\<lambda>((layer, vector), ss').
     case vector of (vx, vy, vz) \<Rightarrow>
     bindE (layer_loop (bs_heap st) layer vx vy (vec_z (bs_origin st)) (bs_sites st))
       (\<lambda>(h', sites').
     bindE (if idx \<noteq> 0
            then bindE (py_mod (int idx + 1) blockperiod) (\<lambda>m.
                   if m = 0
                   then bindE (PeriodicCycle_next (bs_iv st))
                          (\<lambda>(v, iv'). Inr (vec_add (bs_origin st) v, iv'))
                   else Inr (bs_origin st, bs_iv st))
            else Inr (bs_origin st, bs_iv st)) (\<lambda>(origin', iv').
     Inr \<lparr>bs_heap = h', bs_ss = ss', bs_iv = iv',
          bs_origin = vec_add origin' (0, 0, vz * lat_c (get_struct h' layer)),
          bs_sites = sites', bs_layer = Some layer\<rparr>)))"

fun build_loop :: "int \<Rightarrow> nat list \<Rightarrow> build_state \<Rightarrow> error + build_state" where
  "build_loop blockperiod [] st = Inr st"
| "build_loop blockperiod (idx # idxs) st =
     bindE (build_step blockperiod idx st) (build_loop blockperiod idxs)"

text \<open>
  The pass \<^verbatim>\<open>apply periodic constraint\<close>. \<^verbatim>\<open>site.fxyz\<close> is a property that builds a
  fresh array at every read, so \<^verbatim>\<open>site.fxyz[i] = coord % 1\<close> stores into an array that
  is dropped at once: \<open>written_arrays\<close> are those arrays, and no attribute of a site is
  assigned. On floats \<^verbatim>\<open>coord % 1\<close> is \<open>coord - floor coord\<close>.
\<close>

definition written_arrays :: "Site \<Rightarrow> real list list" where
  "written_arrays s =
     concat (map (\<lambda>(i, coord).
        if \<bar>coord\<bar> > 1 then [(Site_fxyz s)[i := coord - of_int \<lfloor>coord\<rfloor>]] else [])
       (enumerate 0 (take 2 (Site_fxyz s))))"

definition periodic_constraint :: "heap \<Rightarrow> ref list \<Rightarrow> heap" where
  "periodic_constraint h sites =
     (let dropped = map (\<lambda>site. written_arrays (get_site h site)) sites in h)"

text \<open>
  The section \<^verbatim>\<open>initialize\<close> of \<^verbatim>\<open>build\<close>: \<^verbatim>\<open>None\<close> for \<^verbatim>\<open>interlayervectors\<close> is the
  list of one zero vector; two cursors, the origin and the empty list of sites.
\<close>

definition interlayer_default :: "vec3 list option \<Rightarrow> vec3 list" where
  "interlayer_default interlayervectors =
     (case interlayervectors of None \<Rightarrow> [(0, 0, 0)] | Some l \<Rightarrow> l)"

definition build_init :: "heap \<Rightarrow> (ref \<times> vec3) list \<Rightarrow> vec3 list \<Rightarrow> build_state" where
  "build_init h sequence interlayervectors =
     \<lparr>bs_heap = h, bs_ss = PeriodicCycle_init sequence,
      bs_iv = PeriodicCycle_init interlayervectors, bs_origin = (0, 0, 0),
      bs_sites = [], bs_layer = None\<rparr>"

text \<open>
  \<^verbatim>\<open>build(sequence, interlayervectors, blockperiod, Nblocks)\<close>. After the loop
  \<^verbatim>\<open>layer.latt.list\<close> reads the variable \<^verbatim>\<open>layer\<close>, which is unbound when the loop
  has not run a round; the array it returns is fresh, its entry 2 is overwritten with
  \<^verbatim>\<open>origin[-1]\<close>, and \<^verbatim>\<open>Lattice(*scalar_lattice)\<close> is a new object.
\<close>

definition build ::
  "heap \<Rightarrow> (ref \<times> vec3) list \<Rightarrow> vec3 list option \<Rightarrow> int \<Rightarrow> int \<Rightarrow> error + (heap \<times> ref)" where
  "build h sequence interlayervectors blockperiod Nblocks =
     bindE (build_loop blockperiod [0..<nat (Nblocks * blockperiod)]
              (build_init h sequence (interlayer_default interlayervectors))) (\<lambda>st.
       case bs_layer st of
         None \<Rightarrow> Inl UnboundLocalError
       | Some layer \<Rightarrow>
           (let h1 = bs_heap st;
                scalar_lattice =
                  (Lattice_list (get_latt h1 (st_latt (get_struct h1 layer))))
                    \<lparr>lat_c := vec_z (bs_origin st)\<rparr>;
                (h2, slatt) = new_latt h1 scalar_lattice;
                h3 = periodic_constraint h2 (bs_sites st)
            in Structure_init h3 (bs_sites st) slatt))"

section \<open>Properties\<close>

lemma fdiv_eq_Inr: "fdiv p q = Inr r \<longleftrightarrow> q \<noteq> 0 \<and> r = p / q"
  by (auto simp: fdiv_def)

lemma fdiv_nonzero [simp]: "q \<noteq> 0 \<Longrightarrow> fdiv p q = Inr (p / q)"
  by (simp add: fdiv_def)

subsection \<open>Closed forms of the setters\<close>

text \<open>
  What the setter of \<^verbatim>\<open>Site.latt\<close> leaves in a site: the reference and the six scalars
  of the new lattice, the fractional coordinates divided anew from the absolute ones.
  \<open>push_sites\<close> is the store of sites after the loop of \<^verbatim>\<open>Structure.latt\<close>.
\<close>

definition reassociate :: "Site \<Rightarrow> ref \<Rightarrow> Lattice \<Rightarrow> Site" where
  "reassociate s r l =
     s\<lparr>site_latt := r,
       lat_a := lat_a l, site_fx := site_x s / lat_a l,
       lat_b := lat_b l, site_fy := site_y s / lat_b l,
       lat_c := lat_c l, site_fz := site_z s / lat_c l,
       lat_al := lat_al l, lat_be := lat_be l, lat_ga := lat_ga l\<rparr>"

definition lengths_nonzero :: "'z Lattice_scheme \<Rightarrow> bool" where
  "lengths_nonzero l \<longleftrightarrow> lat_a l \<noteq> 0 \<and> lat_b l \<noteq> 0 \<and> lat_c l \<noteq> 0"

lemmas heap_defs = new_latt_def new_site_def new_struct_def put_latt_def put_site_def
  put_struct_def get_latt_def get_site_def get_struct_def

lemma Site_set_latt_eq:
  "Site_set_latt h r lattice =
     (if lengths_nonzero (lattices h lattice)
      then Inr (put_site h r (reassociate (siteobjs h r) lattice (lattices h lattice)))
      else Inl ZeroDivisionError)"
  by (simp add: Site_set_latt_def Site_setlatt_def Site_set_a_def Site_set_b_def Site_set_c_def
      Site_set_fx_def Site_set_fy_def Site_set_fz_def Lattice_list_def heap_defs
      reassociate_def lengths_nonzero_def fdiv_def Let_def)

lemma reassociate_idem [simp]:
  "reassociate (reassociate s r l) r' l' = reassociate s r' l'"
  by (simp add: reassociate_def)

definition push_sites :: "(ref \<Rightarrow> Site) \<Rightarrow> ref list \<Rightarrow> ref \<Rightarrow> Lattice \<Rightarrow> ref \<Rightarrow> Site" where
  "push_sites f sites r l = (\<lambda>s. if s \<in> set sites then reassociate (f s) r l else f s)"

lemma push_sites_Nil [simp]: "push_sites f [] r l = f"
  by (simp add: push_sites_def)

lemma push_sites_Cons:
  "push_sites (f(s := reassociate (f s) r l)) rest r l = push_sites f (s # rest) r l"
  by (auto simp: push_sites_def fun_eq_iff)

lemma Structure_push_latt_eq:
  "Structure_push_latt h S sites =
     (if sites = [] \<or> lengths_nonzero (lattices h (st_latt (structs h S)))
      then Inr (h\<lparr>siteobjs := push_sites (siteobjs h) sites (st_latt (structs h S))
                    (lattices h (st_latt (structs h S)))\<rparr>)
      else Inl ZeroDivisionError)"
proof (induction sites arbitrary: h)
  case Nil
  show ?case by simp
next
  case (Cons s rest)
  show ?case
    by (simp add: Site_set_latt_eq Cons.IH heap_defs push_sites_Cons)
qed


lemma Structure_set_latt_eq:
  "Structure_set_latt h S lattice =
     (if st_sites (structs h S) = [] \<or> lengths_nonzero (lattices h lattice)
      then Inr (h\<lparr>siteobjs := push_sites (siteobjs h) (st_sites (structs h S)) lattice
                    (lattices h lattice),
                 structs := (structs h)(S := (structs h S)\<lparr>st_latt := lattice\<rparr>)\<rparr>)
      else Inl ZeroDivisionError)"
  by (simp add: Structure_set_latt_def Structure_push_latt_eq heap_defs)

lemma Structure_set_c_eq:
  "Structure_set_c h S v =
     (if st_sites (structs h S) = [] \<or>
         lengths_nonzero ((lattices h (st_latt (structs h S)))\<lparr>lat_c := v\<rparr>)
      then Inr (h\<lparr>lattices := (lattices h)(st_latt (structs h S) :=
                    (lattices h (st_latt (structs h S)))\<lparr>lat_c := v\<rparr>),
                 siteobjs := push_sites (siteobjs h) (st_sites (structs h S))
                    (st_latt (structs h S)) ((lattices h (st_latt (structs h S)))\<lparr>lat_c := v\<rparr>),
                 structs := (structs h)(S := (structs h S)\<lparr>lat_c := v\<rparr>)\<rparr>)
      else Inl ZeroDivisionError)"
  by (auto simp: Structure_set_c_def Structure_set_latt_eq heap_defs Let_def intro!: heap.equality)

lemma Structure_set_a_eq:
  "Structure_set_a h S v =
     (if st_sites (structs h S) = [] \<or>
         lengths_nonzero ((lattices h (st_latt (structs h S)))\<lparr>lat_a := v\<rparr>)
      then Inr (h\<lparr>lattices := (lattices h)(st_latt (structs h S) :=
                    (lattices h (st_latt (structs h S)))\<lparr>lat_a := v\<rparr>),
                 siteobjs := push_sites (siteobjs h) (st_sites (structs h S))
                    (st_latt (structs h S)) ((lattices h (st_latt (structs h S)))\<lparr>lat_a := v\<rparr>),
                 structs := (structs h)(S := (structs h S)\<lparr>lat_a := v\<rparr>)\<rparr>)
      else Inl ZeroDivisionError)"
  by (auto simp: Structure_set_a_def Structure_set_latt_eq heap_defs Let_def intro!: heap.equality)

lemma Structure_set_b_eq:
  "Structure_set_b h S v =
     (if st_sites (structs h S) = [] \<or>
         lengths_nonzero ((lattices h (st_latt (structs h S)))\<lparr>lat_b := v\<rparr>)
      then Inr (h\<lparr>lattices := (lattices h)(st_latt (structs h S) :=
                    (lattices h (st_latt (structs h S)))\<lparr>lat_b := v\<rparr>),
                 siteobjs := push_sites (siteobjs h) (st_sites (structs h S))
                    (st_latt (structs h S)) ((lattices h (st_latt (structs h S)))\<lparr>lat_b := v\<rparr>),
                 structs := (structs h)(S := (structs h S)\<lparr>lat_b := v\<rparr>)\<rparr>)
      else Inl ZeroDivisionError)"
  by (auto simp: Structure_set_b_def Structure_set_latt_eq heap_defs Let_def intro!: heap.equality)

lemma push_sites_twice [simp]:
  "push_sites (push_sites f sites r l) sites r' l' = push_sites f sites r' l'"
  by (auto simp: push_sites_def fun_eq_iff)

lemma Structure_init_eq:
  "Structure_init h sites lattice =
     (if sites = [] \<or> lengths_nonzero (lattices h lattice)
      then Inr (h\<lparr>siteobjs := push_sites (siteobjs h) sites lattice (lattices h lattice),
                 structs := (structs h)(n_structs h :=
                   \<lparr>lat_a = lat_a (lattices h lattice), lat_b = lat_b (lattices h lattice),
                    lat_c = lat_c (lattices h lattice), lat_al = lat_al (lattices h lattice),
                    lat_be = lat_be (lattices h lattice), lat_ga = lat_ga (lattices h lattice),
                    st_sites = sites, st_latt = lattice, st_current = 0, st_lo = 0,
                    st_high = int (length sites) - 1\<rparr>),
                 n_structs := Suc (n_structs h)\<rparr>, n_structs h)
      else Inl ZeroDivisionError)"
  by (simp add: Structure_init_def Structure_set_latt_eq Structure_set_a_eq Structure_set_b_eq
      Structure_set_c_eq heap_defs Lattice_list_def lengths_nonzero_def)

lemma emit_site_eq:
  "emit_site h layer vx vy oz site =
     (if lengths_nonzero (siteobjs h site)
      then Inr (h\<lparr>lattices := (lattices h)(n_lattices h := lattices h (site_latt (siteobjs h site))),
                 n_lattices := Suc (n_lattices h),
                 siteobjs := (siteobjs h)(n_siteobjs h := (siteobjs h site)
                   \<lparr>site_latt := n_lattices h,
                    site_x := site_x (siteobjs h site) + vx * lat_a (structs h layer),
                    site_fx := (site_x (siteobjs h site) + vx * lat_a (structs h layer))
                                 / lat_a (siteobjs h site),
                    site_y := site_y (siteobjs h site) + vy * lat_b (structs h layer),
                    site_fy := (site_y (siteobjs h site) + vy * lat_b (structs h layer))
                                 / lat_b (siteobjs h site),
                    site_z := site_z (siteobjs h site) + oz,
                    site_fz := (site_z (siteobjs h site) + oz) / lat_c (siteobjs h site)\<rparr>),
                 n_siteobjs := Suc (n_siteobjs h)\<rparr>, n_siteobjs h)
      else Inl ZeroDivisionError)"
  by (simp add: emit_site_def Site_copy_def Site_set_x_def Site_set_y_def Site_set_z_def
      heap_defs lengths_nonzero_def fdiv_def Let_def)

subsection \<open>Lattice equality and hashing\<close>

text \<open>
  C10. \<^verbatim>\<open>__hash__\<close> and \<^verbatim>\<open>__eq__\<close> are defined once, in Lattice, and read only the six
  scalars \<open>a, b, c, al, be, ga\<close>. Site and Structure inherit both, so two objects of
  any of the three classes (two Structures with different site lists, or a Site or a
  Structure and a bare Lattice) that agree on the six scalars hash equal and compare
  equal, whatever their other attributes are.
\<close>

theorem Lattice_eq_hash_depend_on_scalars_only:
  assumes "lat_a p = lat_a q" and "lat_b p = lat_b q" and "lat_c p = lat_c q"
    and "lat_al p = lat_al q" and "lat_be p = lat_be q" and "lat_ga p = lat_ga q"
  shows "Lattice_hash H p = Lattice_hash H q \<and> Lattice_eq H p q \<and> Lattice_eq H q p"
  using assms by (simp add: Lattice_hash_def Lattice_eq_def)

text \<open>
  Two Structures over the same six scalars with different site lists and lattice
  references, and a bare Lattice carrying the same scalars, under a sample hash.
\<close>

theorem Lattice_eq_hash_depend_on_scalars_only_witness:
  "Lattice_eq (\<lambda>t. \<lfloor>sum_list t\<rfloor>)
     \<lparr>lat_a = 1, lat_b = 2, lat_c = 3, lat_al = 90, lat_be = 90, lat_ga = 90,
      st_sites = [0, 1], st_latt = 0, st_current = 0, st_lo = 0, st_high = 1\<rparr>
     \<lparr>lat_a = 1, lat_b = 2, lat_c = 3, lat_al = 90, lat_be = 90, lat_ga = 90,
      st_sites = [], st_latt = 5, st_current = 0, st_lo = 0, st_high = - 1\<rparr> \<and>
   Lattice_hash (\<lambda>t. \<lfloor>sum_list t\<rfloor>)
     \<lparr>lat_a = 1, lat_b = 2, lat_c = 3, lat_al = 90, lat_be = 90, lat_ga = 90,
      st_sites = [0, 1], st_latt = 0, st_current = 0, st_lo = 0, st_high = 1\<rparr> =
   Lattice_hash (\<lambda>t. \<lfloor>sum_list t\<rfloor>) (Lattice_init 1 2 3 90 90 90)"
proof -
  have "Lattice_eq (\<lambda>t. \<lfloor>sum_list t\<rfloor>)
     \<lparr>lat_a = 1, lat_b = 2, lat_c = 3, lat_al = 90, lat_be = 90, lat_ga = 90,
      st_sites = [0, 1], st_latt = 0, st_current = 0, st_lo = 0, st_high = 1\<rparr>
     \<lparr>lat_a = 1, lat_b = 2, lat_c = 3, lat_al = 90, lat_be = 90, lat_ga = 90,
      st_sites = [], st_latt = 5, st_current = 0, st_lo = 0, st_high = - 1\<rparr>"
    by (rule Lattice_eq_hash_depend_on_scalars_only [THEN conjunct2, THEN conjunct1])
      simp_all
  moreover have "Lattice_hash (\<lambda>t. \<lfloor>sum_list t\<rfloor>)
     \<lparr>lat_a = 1, lat_b = 2, lat_c = 3, lat_al = 90, lat_be = 90, lat_ga = 90,
      st_sites = [0, 1], st_latt = 0, st_current = 0, st_lo = 0, st_high = 1\<rparr> =
   Lattice_hash (\<lambda>t. \<lfloor>sum_list t\<rfloor>) (Lattice_init 1 2 3 90 90 90)"
    by (rule Lattice_eq_hash_depend_on_scalars_only [THEN conjunct1])
      (simp_all add: Lattice_init_def)
  ultimately show ?thesis by simp
qed

subsection \<open>The cyclic cursor\<close>

definition pc_ok :: "'a list \<Rightarrow> 'a PeriodicCycle \<Rightarrow> bool" where
  "pc_ok xs pc \<longleftrightarrow>
     pc_iterable pc = xs \<and> pc_low pc = 0 \<and> pc_high pc = int (length xs) - 1 \<and>
     0 \<le> pc_current pc \<and> pc_current pc \<le> int (length xs)"

lemma pc_ok_init: "pc_ok xs (PeriodicCycle_init xs)"
  by (simp add: pc_ok_def PeriodicCycle_init_def)

lemma PeriodicCycle_next_ok:
  assumes "xs \<noteq> []" and "pc_ok xs pc"
  shows "\<exists>pc'. PeriodicCycle_next pc = Inr (xs ! (nat (pc_current pc) mod length xs), pc') \<and>
           pc_ok xs pc' \<and> pc_current pc' = int (nat (pc_current pc) mod length xs) + 1"
proof (cases "pc_current pc > pc_high pc")
  case True
  with assms have c: "pc_current pc = int (length xs)" by (simp add: pc_ok_def)
  from assms have "Suc 0 \<le> length xs" by (cases xs) simp_all
  then show ?thesis using assms c
    by (simp add: PeriodicCycle_next_def pc_ok_def getitem_def)
next
  case False
  with assms have lt: "nat (pc_current pc) < length xs" and nn: "0 \<le> pc_current pc"
    by (auto simp: pc_ok_def)
  then show ?thesis using assms False
    by (simp add: PeriodicCycle_next_def pc_ok_def getitem_def)
qed

lemma advance_ok:
  assumes "xs \<noteq> []"
  shows "pc_ok xs pc \<Longrightarrow>
    \<exists>pc'. advance n pc = Inr (xs ! ((nat (pc_current pc) + n) mod length xs), pc') \<and>
           pc_ok xs pc' \<and> pc_current pc' = int ((nat (pc_current pc) + n) mod length xs) + 1"
proof (induction n arbitrary: pc)
  case 0
  then show ?case using PeriodicCycle_next_ok [OF assms, of pc] by simp
next
  case (Suc n)
  from PeriodicCycle_next_ok [OF assms Suc.prems] obtain pc1 where
    n1: "PeriodicCycle_next pc = Inr (xs ! (nat (pc_current pc) mod length xs), pc1)"
    and ok1: "pc_ok xs pc1"
    and c1: "pc_current pc1 = int (nat (pc_current pc) mod length xs) + 1" by blast
  have "(nat (pc_current pc) mod length xs + Suc n) mod length xs
          = (nat (pc_current pc) + Suc n) mod length xs"
    by (rule mod_add_left_eq)
  then have e: "(nat (pc_current pc1) + n) mod length xs
                  = (nat (pc_current pc) + Suc n) mod length xs"
    using c1 by (simp add: nat_add_distrib)
  from Suc.IH [OF ok1] show ?case using n1 e by simp
qed

lemma step_element_nonempty:
  "xs \<noteq> [] \<Longrightarrow> step_element xs n = Inr (xs ! (n mod length xs))"
  using advance_ok [of xs "PeriodicCycle_init xs" n] pc_ok_init [of xs]
  by (auto simp: step_element_def PeriodicCycle_init_def)

lemma getitem_Nil [simp]: "getitem [] i = Inl IndexError"
  by (simp add: getitem_def)

lemma advance_empty: "pc_iterable pc = [] \<Longrightarrow> advance n pc = Inl IndexError"
  by (cases n) (simp_all add: PeriodicCycle_next_def Let_def)

lemma step_element_empty: "step_element [] n = Inl IndexError"
  by (simp add: step_element_def advance_empty PeriodicCycle_init_def)

text \<open>
  C7. A PeriodicCycle over a sequence of length \<open>N\<close> yields at step \<open>N + k\<close> what it
  yields at step \<open>k\<close>. Advancing never raises the exhaustion error \<^verbatim>\<open>StopIteration\<close>;
  over a sequence that has an element every step returns one, the element at index
  \<open>k mod N\<close>: after the last element the cursor restarts at index 0. (Over the empty
  sequence every step raises \<^verbatim>\<open>IndexError\<close>, which is not an exhaustion.)
\<close>

theorem PeriodicCycle_cyclic_restart:
  "step_element xs (length xs + k) = step_element xs k \<and>
   step_element xs k \<noteq> Inl StopIteration \<and>
   (xs \<noteq> [] \<longrightarrow> step_element xs k = Inr (xs ! (k mod length xs)))"
  by (cases "xs = []") (simp_all add: step_element_empty step_element_nonempty)

theorem PeriodicCycle_cyclic_restart_witness:
  "[10, 20, 30 :: int] \<noteq> [] \<and>
   step_element [10, 20, 30 :: int] (length [10, 20, 30 :: int] + 1) = Inr 20 \<and>
   step_element [10, 20, 30 :: int] 1 = Inr 20"
  using PeriodicCycle_cyclic_restart [of "[10, 20, 30 :: int]" 1] by simp

lemma Site_init_eq:
  "Site_init h specie occupancy fx fy fz Biso lattice =
     (if lengths_nonzero (lattices h lattice)
      then Inr (new_site h
        \<lparr>lat_a = lat_a (lattices h lattice), lat_b = lat_b (lattices h lattice),
         lat_c = lat_c (lattices h lattice), lat_al = lat_al (lattices h lattice),
         lat_be = lat_be (lattices h lattice), lat_ga = lat_ga (lattices h lattice),
         site_latt = lattice, site_name = specie, site_specie = specie,
         site_occ = occupancy, site_biso = Biso,
         site_fx = fx, site_fy = fy, site_fz = fz,
         site_x = fx * lat_a (lattices h lattice), site_y = fy * lat_b (lattices h lattice),
         site_z = fz * lat_c (lattices h lattice)\<rparr>)
      else Inl ZeroDivisionError)"
  by (simp add: Site_init_def Site_set_x_def Site_set_y_def Site_set_z_def Site_set_fx_def
      Site_set_fy_def Site_set_fz_def heap_defs Lattice_list_def lengths_nonzero_def fdiv_def
      Let_def)

subsection \<open>The scenario of the specification\<close>

text \<open>
  A store with no object, and the scenario: \<^verbatim>\<open>Lattice(4.93, 2.85, 1.5, 90, 90, 90)\<close>,
  two sites \<^verbatim>\<open>Mn\<close> and \<^verbatim>\<open>O\<close> at \<open>(0, 0.1, 1/3)\<close> and \<open>(0, 0.1, 2/3)\<close> (with
  \<^verbatim>\<open>Biso = 1\<close>, which the constructor requires), and the Structure of the two.
  \<open>scenario_heap\<close> is the store the three constructors leave.
\<close>

definition heap_empty :: heap where
  "heap_empty =
     \<lparr>lattices = (\<lambda>r. Lattice_init 0 0 0 0 0 0), n_lattices = 0,
      siteobjs = (\<lambda>r. \<lparr>lat_a = 0, lat_b = 0, lat_c = 0, lat_al = 0, lat_be = 0, lat_ga = 0,
                site_latt = 0, site_name = [], site_specie = [], site_occ = 0, site_biso = 0,
                site_fx = 0, site_fy = 0, site_fz = 0, site_x = 0, site_y = 0, site_z = 0\<rparr>),
      n_siteobjs = 0,
      structs = (\<lambda>r. \<lparr>lat_a = 0, lat_b = 0, lat_c = 0, lat_al = 0, lat_be = 0, lat_ga = 0,
             st_sites = [], st_latt = 0, st_current = 0, st_lo = 0, st_high = 0\<rparr>),
      n_structs = 0\<rparr>"

definition scenario_structure :: "error + (heap \<times> ref)" where
  "scenario_structure =
     (let (h1, latt) = new_latt heap_empty (Lattice_init (493 / 100) (285 / 100) (3 / 2) 90 90 90)
      in bindE (Site_init h1 ''Mn'' 1 0 (1 / 10) (1 / 3) 1 latt) (\<lambda>(h2, site).
         bindE (Site_init h2 ''O'' 1 0 (1 / 10) (2 / 3) 1 latt) (\<lambda>(h3, site2).
         Structure_init h3 [site, site2] latt)))"

definition scenario_set_c :: "error + heap" where
  "scenario_set_c = bindE scenario_structure (\<lambda>(h, S). Structure_set_c h S (5 / 2))"

definition scenario_heap :: heap where
  "scenario_heap =
     \<lparr>lattices = (lattices heap_empty)(0 := Lattice_init (493 / 100) (285 / 100) (3 / 2) 90 90 90),
      n_lattices = 1,
      siteobjs = (siteobjs heap_empty)
        (0 := \<lparr>lat_a = 493 / 100, lat_b = 285 / 100, lat_c = 3 / 2,
               lat_al = 90, lat_be = 90, lat_ga = 90,
               site_latt = 0, site_name = ''Mn'', site_specie = ''Mn'', site_occ = 1,
               site_biso = 1, site_fx = 0, site_fy = 1 / 10, site_fz = 1 / 3,
               site_x = 0, site_y = 57 / 200, site_z = 1 / 2\<rparr>,
         1 := \<lparr>lat_a = 493 / 100, lat_b = 285 / 100, lat_c = 3 / 2,
               lat_al = 90, lat_be = 90, lat_ga = 90,
               site_latt = 0, site_name = ''O'', site_specie = ''O'', site_occ = 1,
               site_biso = 1, site_fx = 0, site_fy = 1 / 10, site_fz = 2 / 3,
               site_x = 0, site_y = 57 / 200, site_z = 1\<rparr>),
      n_siteobjs = 2,
      structs = (structs heap_empty)
        (0 := \<lparr>lat_a = 493 / 100, lat_b = 285 / 100, lat_c = 3 / 2,
               lat_al = 90, lat_be = 90, lat_ga = 90,
               st_sites = [0, 1], st_latt = 0, st_current = 0, st_lo = 0, st_high = 1\<rparr>),
      n_structs = 1\<rparr>"

lemma scenario_structure_eq: "scenario_structure = Inr (scenario_heap, 0)"
  by (auto simp: scenario_structure_def scenario_heap_def heap_empty_def Site_init_eq
      Structure_init_eq heap_defs Lattice_init_def lengths_nonzero_def push_sites_def
      reassociate_def fun_eq_iff intro!: heap.equality)


definition site_fz_z :: "heap \<Rightarrow> ref \<Rightarrow> real \<times> real" where
  "site_fz_z h r = (site_fz (get_site h r), site_z (get_site h r))"

lemmas scenario_heap_simps = scenario_heap_def heap_empty_def heap_defs Lattice_init_def
  lengths_nonzero_def

subsection \<open>Coordinates of a site\<close>

text \<open>
  Against C6 as stated (the setters use the lengths of the associated lattice): in the
  scenario the two sites share one lattice. After \<^verbatim>\<open>site2.c = 3\<close> on the second site the
  lattice has \<open>c = 3\<close>, not zero, and the first site still has its own \<open>c = 3/2\<close>.
  Setting \<open>fz = 1\<close> on the first site then gives \<open>z = 3/2\<close>, not \<open>1 * 3\<close>, and setting
  \<open>z = 3\<close> gives \<open>fz = 2\<close>, not \<open>3 / 3\<close>.
\<close>

theorem setters_use_lattice_lengths_counterexample:
  "bindE (Site_set_c scenario_heap 1 3) (\<lambda>h.
     Inr (lat_c (get_latt h (site_latt (get_site h 0))), lat_c (get_site h 0),
          site_z (Site_set_fz (get_site h 0) 1),
          bindE (Site_set_z (get_site h 0) 3) (\<lambda>s. Inr (site_fz s)))) =
     Inr (3, 3 / 2, 3 / 2, Inr 2) \<and>
   (3 / 2 :: real) \<noteq> 1 * 3 \<and> (2 :: real) \<noteq> 3 / 3"
  by (simp add: Site_set_c_def Site_set_fz_def Site_set_z_def scenario_heap_simps Let_def)

text \<open>
  C6, amended. The coordinate setters of a Site use the site's own lengths
  \<^verbatim>\<open>self.a, self.b, self.c\<close>, the copies it keeps of its lattice's lengths. For a site
  whose own lengths are not zero: setting \<open>fx\<close> and reading \<open>x\<close> gives \<open>fx * a\<close>;
  setting \<open>x\<close> returns, and reading \<open>fx\<close> gives \<open>x / a\<close>, which again satisfies
  \<open>x = fx * a\<close>; the same for \<open>y\<close> with \<open>b\<close> and \<open>z\<close> with \<open>c\<close>, with \<open>a, b, c\<close> the
  site's own. They are the lengths of the associated lattice when the site's six
  scalars are those of its lattice (as after \<^verbatim>\<open>__init__\<close> and after the setter of
  \<^verbatim>\<open>latt\<close>), not after the lattice object was changed through another owner.
\<close>

theorem Site_coordinate_setters_roundtrip:
  assumes "lengths_nonzero s"
  shows "site_fx (Site_set_fx s v) = v \<and> site_x (Site_set_fx s v) = v * lat_a s \<and>
         site_fy (Site_set_fy s v) = v \<and> site_y (Site_set_fy s v) = v * lat_b s \<and>
         site_fz (Site_set_fz s v) = v \<and> site_z (Site_set_fz s v) = v * lat_c s \<and>
         (\<exists>s'. Site_set_x s v = Inr s' \<and> site_x s' = v \<and>
            site_fx s' = v / lat_a s \<and> site_x s' = site_fx s' * lat_a s') \<and>
         (\<exists>s'. Site_set_y s v = Inr s' \<and> site_y s' = v \<and>
            site_fy s' = v / lat_b s \<and> site_y s' = site_fy s' * lat_b s') \<and>
         (\<exists>s'. Site_set_z s v = Inr s' \<and> site_z s' = v \<and>
            site_fz s' = v / lat_c s \<and> site_z s' = site_fz s' * lat_c s') \<and>
         (Lattice_list s = Lattice_list (get_latt h (site_latt s)) \<longrightarrow>
            site_x (Site_set_fx s v) = v * lat_a (get_latt h (site_latt s)) \<and>
            site_y (Site_set_fy s v) = v * lat_b (get_latt h (site_latt s)) \<and>
            site_z (Site_set_fz s v) = v * lat_c (get_latt h (site_latt s)) \<and>
            (\<exists>s'. Site_set_x s v = Inr s' \<and>
               site_fx s' = v / lat_a (get_latt h (site_latt s)) \<and>
               site_x s' = site_fx s' * lat_a (get_latt h (site_latt s'))) \<and>
            (\<exists>s'. Site_set_y s v = Inr s' \<and>
               site_fy s' = v / lat_b (get_latt h (site_latt s)) \<and>
               site_y s' = site_fy s' * lat_b (get_latt h (site_latt s'))) \<and>
            (\<exists>s'. Site_set_z s v = Inr s' \<and>
               site_fz s' = v / lat_c (get_latt h (site_latt s)) \<and>
               site_z s' = site_fz s' * lat_c (get_latt h (site_latt s'))))"
proof -
  from assms have nz: "lat_a s \<noteq> 0" "lat_b s \<noteq> 0" "lat_c s \<noteq> 0"
    by (simp_all add: lengths_nonzero_def)
  have own: "site_fx (Site_set_fx s v) = v \<and> site_x (Site_set_fx s v) = v * lat_a s \<and>
         site_fy (Site_set_fy s v) = v \<and> site_y (Site_set_fy s v) = v * lat_b s \<and>
         site_fz (Site_set_fz s v) = v \<and> site_z (Site_set_fz s v) = v * lat_c s \<and>
         (\<exists>s'. Site_set_x s v = Inr s' \<and> site_x s' = v \<and>
            site_fx s' = v / lat_a s \<and> site_x s' = site_fx s' * lat_a s') \<and>
         (\<exists>s'. Site_set_y s v = Inr s' \<and> site_y s' = v \<and>
            site_fy s' = v / lat_b s \<and> site_y s' = site_fy s' * lat_b s') \<and>
         (\<exists>s'. Site_set_z s v = Inr s' \<and> site_z s' = v \<and>
            site_fz s' = v / lat_c s \<and> site_z s' = site_fz s' * lat_c s')"
    using nz
    by (simp add: Site_set_fx_def Site_set_fy_def Site_set_fz_def Site_set_x_def
        Site_set_y_def Site_set_z_def)
  have "site_x (Site_set_fx s v) = v * lat_a (get_latt h (site_latt s)) \<and>
        site_y (Site_set_fy s v) = v * lat_b (get_latt h (site_latt s)) \<and>
        site_z (Site_set_fz s v) = v * lat_c (get_latt h (site_latt s)) \<and>
        (\<exists>s'. Site_set_x s v = Inr s' \<and>
           site_fx s' = v / lat_a (get_latt h (site_latt s)) \<and>
           site_x s' = site_fx s' * lat_a (get_latt h (site_latt s'))) \<and>
        (\<exists>s'. Site_set_y s v = Inr s' \<and>
           site_fy s' = v / lat_b (get_latt h (site_latt s)) \<and>
           site_y s' = site_fy s' * lat_b (get_latt h (site_latt s'))) \<and>
        (\<exists>s'. Site_set_z s v = Inr s' \<and>
           site_fz s' = v / lat_c (get_latt h (site_latt s)) \<and>
           site_z s' = site_fz s' * lat_c (get_latt h (site_latt s')))"
    if sy: "Lattice_list s = Lattice_list (get_latt h (site_latt s))"
  proof -
    from sy have eq: "lat_a s = lat_a (get_latt h (site_latt s))"
      "lat_b s = lat_b (get_latt h (site_latt s))" "lat_c s = lat_c (get_latt h (site_latt s))"
      by (simp_all add: Lattice_list_def)
    have nz': "lat_a (get_latt h (site_latt s)) \<noteq> 0"
      "lat_b (get_latt h (site_latt s)) \<noteq> 0" "lat_c (get_latt h (site_latt s)) \<noteq> 0"
      using nz eq by simp_all
    show ?thesis using eq nz'
      by (simp add: Site_set_fx_def Site_set_fy_def Site_set_fz_def Site_set_x_def
          Site_set_y_def Site_set_z_def)
  qed
  with own show ?thesis by blast
qed

theorem Site_coordinate_setters_roundtrip_witness:
  "lengths_nonzero (get_site scenario_heap 0) \<and>
   Lattice_list (get_site scenario_heap 0) =
     Lattice_list (get_latt scenario_heap (site_latt (get_site scenario_heap 0))) \<and>
   site_x (Site_set_fx (get_site scenario_heap 0) (1 / 2)) = 493 / 200 \<and>
   site_x (Site_set_fx (get_site scenario_heap 0) (1 / 2)) =
     1 / 2 * lat_a (get_latt scenario_heap (site_latt (get_site scenario_heap 0))) \<and>
   (\<exists>s'. Site_set_z (get_site scenario_heap 0) 3 = Inr s' \<and> site_fz s' = 2)"
proof -
  have nz: "lengths_nonzero (get_site scenario_heap 0)"
    by (simp add: scenario_heap_simps)
  have sy: "Lattice_list (get_site scenario_heap 0) =
     Lattice_list (get_latt scenario_heap (site_latt (get_site scenario_heap 0)))"
    by (simp add: scenario_heap_simps Lattice_list_def)
  have v: "lat_a (get_site scenario_heap 0) = 493 / 100"
    "lat_c (get_site scenario_heap 0) = 3 / 2"
    by (simp_all add: scenario_heap_simps)
  note t = Site_coordinate_setters_roundtrip [OF nz, of "1 / 2" scenario_heap]
  from t have "site_x (Site_set_fx (get_site scenario_heap 0) (1 / 2)) = 493 / 200"
    by (simp add: v)
  moreover from t sy
  have "site_x (Site_set_fx (get_site scenario_heap 0) (1 / 2)) =
     1 / 2 * lat_a (get_latt scenario_heap (site_latt (get_site scenario_heap 0)))"
    by blast
  moreover from Site_coordinate_setters_roundtrip [OF nz, of 3 scenario_heap]
  have "\<exists>s'. Site_set_z (get_site scenario_heap 0) 3 = Inr s' \<and> site_fz s' = 2"
    by (auto simp: v)
  ultimately show ?thesis using nz sy by simp
qed

subsection \<open>Re-association of a site\<close>

text \<open>
  Against C3 as stated (fractional coordinates preserved, absolute ones recomputed),
  the scenario of the specification after \<^verbatim>\<open>structure.c = 2.5\<close>: the site that had
  \<open>fz = 1/3\<close> and \<open>z = 1/2\<close> has \<open>fz = 1/5\<close> and still \<open>z = 1/2\<close>, the site that had
  \<open>fz = 2/3\<close> and \<open>z = 1\<close> has \<open>fz = 2/5\<close> and still \<open>z = 1\<close>. The fractional
  coordinate is not preserved, and \<open>z\<close> is not the old \<open>fz\<close> times \<open>2.5\<close>.
\<close>

theorem reassociation_preserves_fractional_counterexample:
  "scenario_structure = Inr (scenario_heap, 0) \<and>
   site_fz_z scenario_heap 0 = (1 / 3, 1 / 2) \<and> site_fz_z scenario_heap 1 = (2 / 3, 1) \<and>
   bindE (Structure_set_c scenario_heap 0 (5 / 2))
     (\<lambda>h. Inr (site_fz_z h 0, site_fz_z h 1)) = Inr ((1 / 5, 1 / 2), (2 / 5, 1)) \<and>
   (1 / 2 :: real) \<noteq> 1 / 3 * (5 / 2)"
  by (simp add: scenario_structure_eq)
    (simp add: scenario_heap_simps Structure_set_c_eq push_sites_def reassociate_def
      site_fz_z_def)

text \<open>
  C3, amended. Assigning \<^verbatim>\<open>site.latt\<close> on a site, to a lattice whose lengths are not
  zero, preserves the site's absolute coordinates \<open>x, y, z\<close> and recomputes its
  fractional coordinates as \<open>x / a\<close>, \<open>y / b\<close>, \<open>z / c\<close> from the new lattice, whose
  reference and six scalars the site takes; the lattice object is not changed. So
  after \<^verbatim>\<open>structure.c = v\<close> every site of the structure has its \<open>z\<close> unchanged and
  \<open>fz = z / v\<close>.
\<close>

theorem Site_reassociation_preserves_absolute:
  assumes "lengths_nonzero (get_latt h lattice)"
    and "lengths_nonzero ((get_latt h (st_latt (get_struct h S)))\<lparr>lat_c := v\<rparr>)"
  shows "(\<exists>h'. Site_set_latt h r lattice = Inr h' \<and>
            site_x (get_site h' r) = site_x (get_site h r) \<and>
            site_y (get_site h' r) = site_y (get_site h r) \<and>
            site_z (get_site h' r) = site_z (get_site h r) \<and>
            site_fx (get_site h' r) = site_x (get_site h r) / lat_a (get_latt h lattice) \<and>
            site_fy (get_site h' r) = site_y (get_site h r) / lat_b (get_latt h lattice) \<and>
            site_fz (get_site h' r) = site_z (get_site h r) / lat_c (get_latt h lattice) \<and>
            site_latt (get_site h' r) = lattice \<and>
            Lattice_list (get_site h' r) = Lattice_list (get_latt h lattice) \<and>
            get_latt h' lattice = get_latt h lattice) \<and>
         (\<exists>h'. Structure_set_c h S v = Inr h' \<and>
            (\<forall>site \<in> set (st_sites (get_struct h S)).
               site_z (get_site h' site) = site_z (get_site h site) \<and>
               site_fz (get_site h' site) = site_z (get_site h site) / v))"
  using assms
  by (simp add: Site_set_latt_eq Structure_set_c_eq heap_defs reassociate_def Lattice_list_def
      push_sites_def)

theorem Site_reassociation_preserves_absolute_witness:
  "lengths_nonzero (get_latt scenario_heap 0) \<and>
   lengths_nonzero ((get_latt scenario_heap (st_latt (get_struct scenario_heap 0)))
      \<lparr>lat_c := 5 / 2\<rparr>) \<and>
   (\<exists>h'. Site_set_latt scenario_heap 0 0 = Inr h' \<and> site_z (get_site h' 0) = 1 / 2 \<and>
      site_fz (get_site h' 0) = 1 / 3) \<and>
   (\<exists>h'. Structure_set_c scenario_heap 0 (5 / 2) = Inr h' \<and>
      site_z (get_site h' 0) = 1 / 2 \<and> site_fz (get_site h' 0) = 1 / 5)"
proof -
  have nz: "lengths_nonzero (get_latt scenario_heap 0)"
    by (simp add: scenario_heap_simps)
  have nz': "lengths_nonzero ((get_latt scenario_heap (st_latt (get_struct scenario_heap 0)))
      \<lparr>lat_c := 5 / 2\<rparr>)"
    by (simp add: scenario_heap_simps)
  have v: "site_z (get_site scenario_heap 0) = 1 / 2" "lat_c (get_latt scenario_heap 0) = 3 / 2"
    "st_sites (get_struct scenario_heap 0) = [0, 1]"
    by (simp_all add: scenario_heap_simps)
  from Site_reassociation_preserves_absolute [OF nz nz', of 0]
  have "(\<exists>h'. Site_set_latt scenario_heap 0 0 = Inr h' \<and> site_z (get_site h' 0) = 1 / 2 \<and>
      site_fz (get_site h' 0) = 1 / 3) \<and>
   (\<exists>h'. Structure_set_c scenario_heap 0 (5 / 2) = Inr h' \<and>
      site_z (get_site h' 0) = 1 / 2 \<and> site_fz (get_site h' 0) = 1 / 5)"
    by (auto simp: v)
  then show ?thesis using nz nz' by simp
qed

subsection \<open>Propagation of a lattice length\<close>

text \<open>
  C5. After \<^verbatim>\<open>S.c = v\<close> on a structure the value \<open>v\<close> is what \<^verbatim>\<open>S.c\<close>, \<^verbatim>\<open>S.latt.c\<close>
  and, for every site of \<open>S\<close>, \<^verbatim>\<open>site.c\<close> and \<^verbatim>\<open>site.latt.c\<close> return, and every site
  refers to the lattice object of \<open>S\<close>. The assignment returns when \<open>S\<close> has no site or
  the lattice lengths, with \<open>v\<close> for \<open>c\<close>, are not zero.
\<close>

theorem Structure_set_c_propagates:
  assumes "st_sites (get_struct h S) = [] \<or>
           lengths_nonzero ((get_latt h (st_latt (get_struct h S)))\<lparr>lat_c := v\<rparr>)"
  shows "\<exists>h'. Structure_set_c h S v = Inr h' \<and>
     st_sites (get_struct h' S) = st_sites (get_struct h S) \<and>
     lat_c (get_struct h' S) = v \<and>
     lat_c (get_latt h' (st_latt (get_struct h' S))) = v \<and>
     (\<forall>site \<in> set (st_sites (get_struct h' S)).
        lat_c (get_site h' site) = v \<and>
        site_latt (get_site h' site) = st_latt (get_struct h' S) \<and>
        lat_c (get_latt h' (site_latt (get_site h' site))) = v)"
  using assms by (auto simp: Structure_set_c_eq heap_defs push_sites_def reassociate_def)

theorem Structure_set_c_propagates_witness:
  "lengths_nonzero ((get_latt scenario_heap (st_latt (get_struct scenario_heap 0)))
      \<lparr>lat_c := 5 / 2\<rparr>) \<and>
   (\<exists>h'. Structure_set_c scenario_heap 0 (5 / 2) = Inr h' \<and>
      st_sites (get_struct h' 0) = [0, 1] \<and>
      lat_c (get_struct h' 0) = 5 / 2 \<and> lat_c (get_latt h' (st_latt (get_struct h' 0))) = 5 / 2 \<and>
      lat_c (get_site h' 0) = 5 / 2 \<and> lat_c (get_latt h' (site_latt (get_site h' 0))) = 5 / 2 \<and>
      lat_c (get_site h' 1) = 5 / 2 \<and> lat_c (get_latt h' (site_latt (get_site h' 1))) = 5 / 2)"
proof -
  have nz: "lengths_nonzero ((get_latt scenario_heap (st_latt (get_struct scenario_heap 0)))
      \<lparr>lat_c := 5 / 2\<rparr>)"
    by (simp add: scenario_heap_simps)
  have v: "st_sites (get_struct scenario_heap 0) = [0, 1]"
    by (simp add: scenario_heap_simps)
  from Structure_set_c_propagates [OF disjI2, OF nz]
  have "\<exists>h'. Structure_set_c scenario_heap 0 (5 / 2) = Inr h' \<and>
      st_sites (get_struct h' 0) = [0, 1] \<and>
      lat_c (get_struct h' 0) = 5 / 2 \<and> lat_c (get_latt h' (st_latt (get_struct h' 0))) = 5 / 2 \<and>
      lat_c (get_site h' 0) = 5 / 2 \<and> lat_c (get_latt h' (site_latt (get_site h' 0))) = 5 / 2 \<and>
      lat_c (get_site h' 1) = 5 / 2 \<and> lat_c (get_latt h' (site_latt (get_site h' 1))) = 5 / 2"
    by (auto simp: v)
  then show ?thesis using nz by simp
qed

subsection \<open>The loops of build\<close>

text \<open>
  What a round of \<^verbatim>\<open>build\<close> may change in the store: it allocates Lattice and Site
  objects and moves the cursor of a Structure; every other attribute of an object that
  was there stays.
\<close>

definition erase_cursor :: "Structure \<Rightarrow> Structure" where
  "erase_cursor st = st\<lparr>st_current := 0\<rparr>"

definition loop_frame :: "heap \<Rightarrow> heap \<Rightarrow> bool" where
  "loop_frame h h' \<longleftrightarrow>
     n_lattices h \<le> n_lattices h' \<and> n_siteobjs h \<le> n_siteobjs h' \<and>
     n_structs h' = n_structs h \<and>
     (\<forall>r<n_lattices h. lattices h' r = lattices h r) \<and>
     (\<forall>r<n_siteobjs h. siteobjs h' r = siteobjs h r) \<and>
     (\<forall>r. erase_cursor (structs h' r) = erase_cursor (structs h r))"

lemma loop_frame_refl [simp]: "loop_frame h h"
  by (simp add: loop_frame_def)

lemma loop_frame_trans: "loop_frame h1 h2 \<Longrightarrow> loop_frame h2 h3 \<Longrightarrow> loop_frame h1 h3"
  by (auto simp: loop_frame_def)

lemma loop_frame_put_cursor:
  "erase_cursor st = erase_cursor (structs h layer) \<Longrightarrow> loop_frame h (put_struct h layer st)"
  by (simp add: loop_frame_def put_struct_def)

lemma emit_site_frame:
  assumes "emit_site h layer vx vy oz site = Inr (h', rv)"
  shows "loop_frame h h'" and "rv = n_siteobjs h" and "n_siteobjs h' = Suc (n_siteobjs h)"
  using assms by (auto simp: emit_site_eq loop_frame_def split: if_splits)

lemma Structure_next_cursor:
  "Structure_next st = (st', res) \<Longrightarrow> erase_cursor st' = erase_cursor st"
  by (auto simp: Structure_next_def erase_cursor_def Let_def split: if_splits)

lemma layer_loop_frame:
  "layer_loop h layer vx vy oz sites = Inr (h', sites') \<Longrightarrow>
     loop_frame h h' \<and>
     (\<exists>new. sites' = sites @ new \<and> (\<forall>r\<in>set new. n_siteobjs h \<le> r \<and> r < n_siteobjs h'))"
proof (induction h layer vx vy oz sites rule: layer_loop.induct)
  case (1 h layer vx vy oz sites)
  obtain st' res where nx: "Structure_next (get_struct h layer) = (st', res)"
    by (cases "Structure_next (get_struct h layer)")
  have f1: "loop_frame h (put_struct h layer st')"
    using Structure_next_cursor [OF nx] by (simp add: loop_frame_put_cursor get_struct_def)
  show ?case
  proof (cases res)
    case (Inl e)
    with "1.prems" nx have "h' = put_struct h layer st'" and "sites' = sites"
      by (auto simp: layer_loop.simps [of h] split: if_splits)
    with f1 show ?thesis by simp
  next
    case (Inr site)
    with "1.prems" nx obtain h2 rv
      where em: "emit_site (put_struct h layer st') layer vx vy oz site = Inr (h2, rv)"
        and rec: "layer_loop h2 layer vx vy oz (sites @ [rv]) = Inr (h', sites')"
      by (auto simp: layer_loop.simps [of h] split: sum.splits)
    from emit_site_frame [OF em] have f2: "loop_frame (put_struct h layer st') h2"
      and rv: "rv = n_siteobjs h" and n2: "n_siteobjs h2 = Suc (n_siteobjs h)"
      by (simp_all add: put_struct_def)
    from "1.IH" [OF nx [symmetric] Inr em refl rec]
    obtain new where f3: "loop_frame h2 h'" and s: "sites' = (sites @ [rv]) @ new"
      and nw: "\<forall>r\<in>set new. n_siteobjs h2 \<le> r \<and> r < n_siteobjs h'" by blast
    from f3 have "n_siteobjs h2 \<le> n_siteobjs h'" by (simp add: loop_frame_def)
    with rv n2 nw have "\<forall>r\<in>set (rv # new). n_siteobjs h \<le> r \<and> r < n_siteobjs h'"
      by auto
    moreover have "sites' = sites @ (rv # new)" using s by simp
    moreover have "loop_frame h h'"
      using f1 f2 f3 by (blast intro: loop_frame_trans)
    ultimately show ?thesis by blast
  qed
qed


text \<open>
  The height of the stack after \<open>n\<close> rounds, as the specification words it: the sum over
  the rounds of \<open>vector.z * layer.c\<close>, plus the \<open>z\<close> of every interlayer vector injected
  so far; \<open>injections\<close> counts the rounds that inject one.
\<close>

definition injections :: "int \<Rightarrow> nat \<Rightarrow> nat" where
  "injections blockperiod n =
     length (filter (\<lambda>idx. idx \<noteq> 0 \<and> (int idx + 1) mod blockperiod = 0) [0..<n])"

definition stack_height :: "heap \<Rightarrow> (ref \<times> vec3) list \<Rightarrow> vec3 list \<Rightarrow> int \<Rightarrow> nat \<Rightarrow> real" where
  "stack_height h sequence ivs blockperiod n =
     (\<Sum>idx<n. vec_z (snd (sequence ! (idx mod length sequence))) *
                lat_c (get_struct h (fst (sequence ! (idx mod length sequence))))) +
     (\<Sum>j<injections blockperiod n. vec_z (ivs ! (j mod length ivs)))"

definition pc_at :: "'a list \<Rightarrow> nat \<Rightarrow> 'a PeriodicCycle \<Rightarrow> bool" where
  "pc_at xs k pc \<longleftrightarrow> pc_ok xs pc \<and> nat (pc_current pc) mod length xs = k mod length xs"

lemma pc_at_init: "pc_at xs 0 (PeriodicCycle_init xs)"
  by (simp add: pc_at_def pc_ok_init) (simp add: PeriodicCycle_init_def)

lemma pc_at_next:
  assumes "pc_at xs k pc" and "PeriodicCycle_next pc = Inr (v, pc')"
  shows "xs \<noteq> []" and "v = xs ! (k mod length xs)" and "pc_at xs (Suc k) pc'"
proof -
  from assms have ok: "pc_ok xs pc" and m: "nat (pc_current pc) mod length xs = k mod length xs"
    by (simp_all add: pc_at_def)
  show ne: "xs \<noteq> []"
  proof
    assume "xs = []"
    with ok have "pc_iterable pc = []" by (simp add: pc_ok_def)
    from advance_empty [OF this, of 0] assms(2) show False by simp
  qed
  from PeriodicCycle_next_ok [OF ne ok] assms(2) m
  have v: "v = xs ! (k mod length xs)" and ok': "pc_ok xs pc'"
    and c: "pc_current pc' = int (k mod length xs) + 1" by auto
  show "v = xs ! (k mod length xs)" by (rule v)
  have "nat (pc_current pc') mod length xs = Suc (k mod length xs) mod length xs"
    using c by (simp add: nat_add_distrib)
  also have "\<dots> = Suc k mod length xs" by (rule mod_Suc_eq)
  finally show "pc_at xs (Suc k) pc'" using ok' by (simp add: pc_at_def)
qed

lemma injections_0 [simp]: "injections bp 0 = 0"
  by (simp add: injections_def)

lemma injections_Suc:
  "injections bp (Suc k) =
     injections bp k + (if k \<noteq> 0 \<and> (int k + 1) mod bp = 0 then 1 else 0)"
  by (simp add: injections_def)

lemma vec_z_add [simp]: "vec_z (vec_add u v) = vec_z u + vec_z v"
  by (cases u, cases v) (simp add: vec_z_def vec_add_def)

lemma stack_height_Suc:
  "stack_height h sequence ivs bp (Suc k) =
     stack_height h sequence ivs bp k +
     vec_z (snd (sequence ! (k mod length sequence))) *
       lat_c (get_struct h (fst (sequence ! (k mod length sequence)))) +
     (if k \<noteq> 0 \<and> (int k + 1) mod bp = 0
      then vec_z (ivs ! (injections bp k mod length ivs)) else 0)"
  by (simp add: stack_height_def injections_Suc)

lemma erase_cursor_fields:
  assumes "erase_cursor s = erase_cursor t"
  shows "lat_a s = lat_a t" "lat_b s = lat_b t" "lat_c s = lat_c t" "lat_al s = lat_al t"
    "lat_be s = lat_be t" "lat_ga s = lat_ga t" "st_sites s = st_sites t"
    "st_latt s = st_latt t" "st_lo s = st_lo t" "st_high s = st_high t"
proof -
  have "lat_a (erase_cursor s) = lat_a (erase_cursor t)" "lat_b (erase_cursor s) = lat_b (erase_cursor t)"
    "lat_c (erase_cursor s) = lat_c (erase_cursor t)" "lat_al (erase_cursor s) = lat_al (erase_cursor t)"
    "lat_be (erase_cursor s) = lat_be (erase_cursor t)" "lat_ga (erase_cursor s) = lat_ga (erase_cursor t)"
    "st_sites (erase_cursor s) = st_sites (erase_cursor t)"
    "st_latt (erase_cursor s) = st_latt (erase_cursor t)"
    "st_lo (erase_cursor s) = st_lo (erase_cursor t)" "st_high (erase_cursor s) = st_high (erase_cursor t)"
    using assms by simp_all
  then show "lat_a s = lat_a t" "lat_b s = lat_b t" "lat_c s = lat_c t" "lat_al s = lat_al t"
    "lat_be s = lat_be t" "lat_ga s = lat_ga t" "st_sites s = st_sites t"
    "st_latt s = st_latt t" "st_lo s = st_lo t" "st_high s = st_high t"
    by (simp_all add: erase_cursor_def)
qed

definition build_inv ::
  "heap \<Rightarrow> (ref \<times> vec3) list \<Rightarrow> vec3 list \<Rightarrow> int \<Rightarrow> nat \<Rightarrow> build_state \<Rightarrow> bool" where
  "build_inv h0 sequence ivs bp k st \<longleftrightarrow>
     loop_frame h0 (bs_heap st) \<and>
     pc_at sequence k (bs_ss st) \<and>
     pc_at ivs (injections bp k) (bs_iv st) \<and>
     vec_z (bs_origin st) = stack_height h0 sequence ivs bp k \<and>
     (\<forall>r\<in>set (bs_sites st). n_siteobjs h0 \<le> r \<and> r < n_siteobjs (bs_heap st)) \<and>
     bs_layer st = (if k = 0 then None else Some (fst (sequence ! ((k - 1) mod length sequence)))) \<and>
     (k = 0 \<or> sequence \<noteq> [])"

lemma build_step_inv:
  assumes inv: "build_inv h0 sequence ivs bp k st"
    and step: "build_step bp k st = Inr st'"
  shows "build_inv h0 sequence ivs bp (Suc k) st'"
proof -
  from inv have fr: "loop_frame h0 (bs_heap st)" and ss: "pc_at sequence k (bs_ss st)"
    and iv: "pc_at ivs (injections bp k) (bs_iv st)"
    and oz: "vec_z (bs_origin st) = stack_height h0 sequence ivs bp k"
    and si: "\<forall>r\<in>set (bs_sites st). n_siteobjs h0 \<le> r \<and> r < n_siteobjs (bs_heap st)"
    by (simp_all add: build_inv_def)
  from step obtain layer vx vy vz ss' h' sites' origin' iv'
    where nx: "PeriodicCycle_next (bs_ss st) = Inr ((layer, (vx, vy, vz)), ss')"
      and ll: "layer_loop (bs_heap st) layer vx vy (vec_z (bs_origin st)) (bs_sites st)
                 = Inr (h', sites')"
      and inj: "(if k \<noteq> 0
            then bindE (py_mod (int k + 1) bp) (\<lambda>m.
                   if m = 0
                   then bindE (PeriodicCycle_next (bs_iv st))
                          (\<lambda>(v, iv'). Inr (vec_add (bs_origin st) v, iv'))
                   else Inr (bs_origin st, bs_iv st))
            else Inr (bs_origin st, bs_iv st)) = Inr (origin', iv')"
      and st': "st' = \<lparr>bs_heap = h', bs_ss = ss', bs_iv = iv',
          bs_origin = vec_add origin' (0, 0, vz * lat_c (get_struct h' layer)),
          bs_sites = sites', bs_layer = Some layer\<rparr>"
    by (auto simp: build_step_def bindE_eq_Inr split: prod.splits)
  from pc_at_next [OF ss nx] have ne: "sequence \<noteq> []"
    and el: "(layer, (vx, vy, vz)) = sequence ! (k mod length sequence)"
    and ss': "pc_at sequence (Suc k) ss'" by simp_all
  from layer_loop_frame [OF ll] obtain new where f2: "loop_frame (bs_heap st) h'"
    and s': "sites' = bs_sites st @ new"
    and nw: "\<forall>r\<in>set new. n_siteobjs (bs_heap st) \<le> r \<and> r < n_siteobjs h'" by blast
  have fr': "loop_frame h0 h'" using fr f2 by (rule loop_frame_trans)
  from f2 have mono: "n_siteobjs (bs_heap st) \<le> n_siteobjs h'" by (simp add: loop_frame_def)
  from fr have mono0: "n_siteobjs h0 \<le> n_siteobjs (bs_heap st)" by (simp add: loop_frame_def)
  have si': "\<forall>r\<in>set sites'. n_siteobjs h0 \<le> r \<and> r < n_siteobjs h'"
    using si nw s' mono mono0 by auto
  from fr' have "erase_cursor (structs h' layer) = erase_cursor (structs h0 layer)"
    by (simp add: loop_frame_def)
  then have "lat_c (structs h' layer) = lat_c (structs h0 layer)"
    by (rule erase_cursor_fields)
  then have c: "lat_c (get_struct h' layer) = lat_c (get_struct h0 layer)"
    by (simp add: get_struct_def)
  have ij: "pc_at ivs (injections bp (Suc k)) iv' \<and>
            vec_z origin' = vec_z (bs_origin st) +
              (if k \<noteq> 0 \<and> (int k + 1) mod bp = 0
               then vec_z (ivs ! (injections bp k mod length ivs)) else 0)"
  proof (cases "k \<noteq> 0 \<and> (int k + 1) mod bp = 0")
    case True
    with inj obtain v where n2: "PeriodicCycle_next (bs_iv st) = Inr (v, iv')"
      and o: "origin' = vec_add (bs_origin st) v"
      by (auto simp: py_mod_def bindE_eq_Inr split: if_splits)
    from pc_at_next [OF iv n2] o True show ?thesis by (simp add: injections_Suc)
  next
    case False
    with inj have "origin' = bs_origin st" and "iv' = bs_iv st"
      by (auto simp: py_mod_def bindE_eq_Inr split: if_splits)
    with iv False show ?thesis by (auto simp: injections_Suc)
  qed
  have l: "layer = fst (sequence ! (k mod length sequence))"
    and z: "vz = vec_z (snd (sequence ! (k mod length sequence)))"
    using el [symmetric] by (simp_all add: vec_z_def)
  have "vec_z (bs_origin st') = stack_height h0 sequence ivs bp (Suc k)"
    using ij oz c by (simp add: st' stack_height_Suc l z vec_z_def [of "(0, 0, _)"])
  then show ?thesis
    using fr' ss' ij si' l ne by (simp add: build_inv_def st')
qed

lemma build_loop_inv:
  "build_inv h0 sequence ivs bp i st \<Longrightarrow> build_loop bp [i..<n] st = Inr st' \<Longrightarrow> i \<le> n \<Longrightarrow>
     build_inv h0 sequence ivs bp n st'"
proof (induction "n - i" arbitrary: i st)
  case 0
  then show ?case by simp
next
  case (Suc d)
  then have lt: "i < n" by simp
  then have "[i..<n] = i # [Suc i..<n]" by (rule upt_conv_Cons)
  with Suc.prems(2) obtain st1 where s1: "build_step bp i st = Inr st1"
    and r: "build_loop bp [Suc i..<n] st1 = Inr st'"
    by (auto simp: bindE_eq_Inr)
  from build_step_inv [OF Suc.prems(1) s1] have "build_inv h0 sequence ivs bp (Suc i) st1" .
  moreover have "d = n - Suc i" using Suc.hyps(2) by simp
  ultimately show ?case using Suc.hyps(1) r lt by simp
qed

subsection \<open>What a returning call of build has done\<close>

lemma build_inv_init:
  "build_inv h sequence ivs bp 0 (build_init h sequence ivs)"
  by (simp add: build_inv_def build_init_def pc_at_init stack_height_def vec_z_def)

lemma periodic_constraint_id [simp]: "periodic_constraint h sites = h"
  by (simp add: periodic_constraint_def)

text \<open>What a call of build that returns has done.\<close>

lemma build_Inr_D:
  assumes "build h sequence interlayervectors bp nb = Inr (h', S)"
  obtains st layer where
    "build_loop bp [0..<nat (nb * bp)]
       (build_init h sequence (interlayer_default interlayervectors)) = Inr st"
    and "bs_layer st = Some layer"
    and "S = n_structs (bs_heap st)"
    and "lattices h' = (lattices (bs_heap st))(n_lattices (bs_heap st) :=
           (Lattice_list (lattices (bs_heap st) (st_latt (structs (bs_heap st) layer))))
             \<lparr>lat_c := vec_z (bs_origin st)\<rparr>)"
    and "siteobjs h' = push_sites (siteobjs (bs_heap st)) (bs_sites st) (n_lattices (bs_heap st))
           ((Lattice_list (lattices (bs_heap st) (st_latt (structs (bs_heap st) layer))))
             \<lparr>lat_c := vec_z (bs_origin st)\<rparr>)"
    and "\<forall>r. r \<noteq> n_structs (bs_heap st) \<longrightarrow> structs h' r = structs (bs_heap st) r"
    and "st_latt (structs h' (n_structs (bs_heap st))) = n_lattices (bs_heap st)"
    and "st_sites (structs h' (n_structs (bs_heap st))) = bs_sites st"
    and "Lattice_list (structs h' (n_structs (bs_heap st))) =
           (Lattice_list (lattices (bs_heap st) (st_latt (structs (bs_heap st) layer))))
             \<lparr>lat_c := vec_z (bs_origin st)\<rparr>"
proof -
  from assms obtain st where
    lp: "build_loop bp [0..<nat (nb * bp)]
       (build_init h sequence (interlayer_default interlayervectors)) = Inr st"
    and rest: "(case bs_layer st of
         None \<Rightarrow> Inl UnboundLocalError
       | Some layer \<Rightarrow>
           (let h1 = bs_heap st;
                scalar_lattice =
                  (Lattice_list (get_latt h1 (st_latt (get_struct h1 layer))))
                    \<lparr>lat_c := vec_z (bs_origin st)\<rparr>;
                (h2, slatt) = new_latt h1 scalar_lattice;
                h3 = periodic_constraint h2 (bs_sites st)
            in Structure_init h3 (bs_sites st) slatt)) = Inr (h', S)"
    by (auto simp: build_def bindE_eq_Inr)
  from rest obtain layer where la: "bs_layer st = Some layer"
    by (cases "bs_layer st") simp_all
  from rest la have
    "S = n_structs (bs_heap st) \<and>
     lattices h' = (lattices (bs_heap st))(n_lattices (bs_heap st) :=
           (Lattice_list (lattices (bs_heap st) (st_latt (structs (bs_heap st) layer))))
             \<lparr>lat_c := vec_z (bs_origin st)\<rparr>) \<and>
     siteobjs h' = push_sites (siteobjs (bs_heap st)) (bs_sites st) (n_lattices (bs_heap st))
           ((Lattice_list (lattices (bs_heap st) (st_latt (structs (bs_heap st) layer))))
             \<lparr>lat_c := vec_z (bs_origin st)\<rparr>) \<and>
     (\<forall>r. r \<noteq> n_structs (bs_heap st) \<longrightarrow> structs h' r = structs (bs_heap st) r) \<and>
     st_latt (structs h' (n_structs (bs_heap st))) = n_lattices (bs_heap st) \<and>
     st_sites (structs h' (n_structs (bs_heap st))) = bs_sites st \<and>
     Lattice_list (structs h' (n_structs (bs_heap st))) =
           (Lattice_list (lattices (bs_heap st) (st_latt (structs (bs_heap st) layer))))
             \<lparr>lat_c := vec_z (bs_origin st)\<rparr>"
    by (auto simp: Structure_init_eq heap_defs Let_def Lattice_list_def split: if_splits)
  with lp la that show thesis by blast
qed


lemma build_Inr_inv:
  assumes "build h sequence interlayervectors bp nb = Inr (h', S)"
  obtains st layer where
    "build_inv h sequence (interlayer_default interlayervectors) bp (nat (nb * bp)) st"
    and "bs_layer st = Some layer"
    and "S = n_structs (bs_heap st)"
    and "lattices h' = (lattices (bs_heap st))(n_lattices (bs_heap st) :=
           (Lattice_list (lattices (bs_heap st) (st_latt (structs (bs_heap st) layer))))
             \<lparr>lat_c := vec_z (bs_origin st)\<rparr>)"
    and "siteobjs h' = push_sites (siteobjs (bs_heap st)) (bs_sites st) (n_lattices (bs_heap st))
           ((Lattice_list (lattices (bs_heap st) (st_latt (structs (bs_heap st) layer))))
             \<lparr>lat_c := vec_z (bs_origin st)\<rparr>)"
    and "\<forall>r. r \<noteq> n_structs (bs_heap st) \<longrightarrow> structs h' r = structs (bs_heap st) r"
    and "st_latt (structs h' (n_structs (bs_heap st))) = n_lattices (bs_heap st)"
    and "st_sites (structs h' (n_structs (bs_heap st))) = bs_sites st"
    and "Lattice_list (structs h' (n_structs (bs_heap st))) =
           (Lattice_list (lattices (bs_heap st) (st_latt (structs (bs_heap st) layer))))
             \<lparr>lat_c := vec_z (bs_origin st)\<rparr>"
proof -
  from assms obtain st layer where
    lp: "build_loop bp [0..<nat (nb * bp)]
       (build_init h sequence (interlayer_default interlayervectors)) = Inr st"
    and r: "bs_layer st = Some layer"
     "S = n_structs (bs_heap st)"
     "lattices h' = (lattices (bs_heap st))(n_lattices (bs_heap st) :=
           (Lattice_list (lattices (bs_heap st) (st_latt (structs (bs_heap st) layer))))
             \<lparr>lat_c := vec_z (bs_origin st)\<rparr>)"
     "siteobjs h' = push_sites (siteobjs (bs_heap st)) (bs_sites st) (n_lattices (bs_heap st))
           ((Lattice_list (lattices (bs_heap st) (st_latt (structs (bs_heap st) layer))))
             \<lparr>lat_c := vec_z (bs_origin st)\<rparr>)"
     "\<forall>r. r \<noteq> n_structs (bs_heap st) \<longrightarrow> structs h' r = structs (bs_heap st) r"
     "st_latt (structs h' (n_structs (bs_heap st))) = n_lattices (bs_heap st)"
     "st_sites (structs h' (n_structs (bs_heap st))) = bs_sites st"
     "Lattice_list (structs h' (n_structs (bs_heap st))) =
           (Lattice_list (lattices (bs_heap st) (st_latt (structs (bs_heap st) layer))))
             \<lparr>lat_c := vec_z (bs_origin st)\<rparr>"
    by (rule build_Inr_D)
  from build_loop_inv [OF build_inv_init lp]
  have "build_inv h sequence (interlayer_default interlayervectors) bp (nat (nb * bp)) st"
    by simp
  with r that show thesis by blast
qed

lemma build_frame_lemma:
  assumes "build h sequence interlayervectors bp nb = Inr (h', S)"
  shows "(\<forall>r<n_lattices h. get_latt h' r = get_latt h r) \<and>
         (\<forall>r<n_siteobjs h. get_site h' r = get_site h r) \<and>
         (\<forall>r<n_structs h. erase_cursor (get_struct h' r) = erase_cursor (get_struct h r)) \<and>
         S = n_structs h"
proof -
  from assms obtain st layer where
    inv: "build_inv h sequence (interlayer_default interlayervectors) bp (nat (nb * bp)) st"
    and S: "S = n_structs (bs_heap st)"
    and la: "lattices h' = (lattices (bs_heap st))(n_lattices (bs_heap st) :=
           (Lattice_list (lattices (bs_heap st) (st_latt (structs (bs_heap st) layer))))
             \<lparr>lat_c := vec_z (bs_origin st)\<rparr>)"
    and si: "siteobjs h' = push_sites (siteobjs (bs_heap st)) (bs_sites st) (n_lattices (bs_heap st))
           ((Lattice_list (lattices (bs_heap st) (st_latt (structs (bs_heap st) layer))))
             \<lparr>lat_c := vec_z (bs_origin st)\<rparr>)"
    and sr: "\<forall>r. r \<noteq> n_structs (bs_heap st) \<longrightarrow> structs h' r = structs (bs_heap st) r"
    by (rule build_Inr_inv)
  from inv have fr: "loop_frame h (bs_heap st)"
    and new: "\<forall>r\<in>set (bs_sites st). n_siteobjs h \<le> r \<and> r < n_siteobjs (bs_heap st)"
    by (simp_all add: build_inv_def)
  have "\<forall>r<n_lattices h. get_latt h' r = get_latt h r"
    using fr la by (auto simp: loop_frame_def get_latt_def)
  moreover have "\<forall>r<n_siteobjs h. get_site h' r = get_site h r"
    using fr si new by (auto simp: loop_frame_def get_site_def push_sites_def)
  moreover have "\<forall>r<n_structs h. erase_cursor (get_struct h' r) = erase_cursor (get_struct h r)"
    using fr sr by (auto simp: loop_frame_def get_struct_def)
  moreover have "S = n_structs h" using fr S by (simp add: loop_frame_def)
  ultimately show ?thesis by blast
qed

lemma build_lattice_lemma:
  assumes b: "build h sequence interlayervectors bp nb = Inr (h', S)"
    and wf: "\<forall>p \<in> set sequence. st_latt (get_struct h (fst p)) < n_lattices h"
  shows "0 < nat (nb * bp) \<and> sequence \<noteq> [] \<and>
     Lattice_list (get_struct h' S) = get_latt h' (st_latt (get_struct h' S)) \<and>
     get_latt h' (st_latt (get_struct h' S)) =
       (get_latt h (st_latt (get_struct h
           (fst (sequence ! ((nat (nb * bp) - 1) mod length sequence))))))
         \<lparr>lat_c := stack_height h sequence (interlayer_default interlayervectors) bp
                     (nat (nb * bp))\<rparr>"
proof -
  from b obtain st layer where
    inv: "build_inv h sequence (interlayer_default interlayervectors) bp (nat (nb * bp)) st"
    and ly: "bs_layer st = Some layer"
    and S: "S = n_structs (bs_heap st)"
    and la: "lattices h' = (lattices (bs_heap st))(n_lattices (bs_heap st) :=
           (Lattice_list (lattices (bs_heap st) (st_latt (structs (bs_heap st) layer))))
             \<lparr>lat_c := vec_z (bs_origin st)\<rparr>)"
    and sl: "st_latt (structs h' (n_structs (bs_heap st))) = n_lattices (bs_heap st)"
    and ll: "Lattice_list (structs h' (n_structs (bs_heap st))) =
           (Lattice_list (lattices (bs_heap st) (st_latt (structs (bs_heap st) layer))))
             \<lparr>lat_c := vec_z (bs_origin st)\<rparr>"
    by (rule build_Inr_inv)
  from inv ly have n: "0 < nat (nb * bp)" and ne: "sequence \<noteq> []"
    and l: "layer = fst (sequence ! ((nat (nb * bp) - 1) mod length sequence))"
    by (auto simp: build_inv_def split: if_splits)
  from inv have fr: "loop_frame h (bs_heap st)"
    and oz: "vec_z (bs_origin st) =
      stack_height h sequence (interlayer_default interlayervectors) bp (nat (nb * bp))"
    by (simp_all add: build_inv_def)
  from ne have "sequence ! ((nat (nb * bp) - 1) mod length sequence) \<in> set sequence"
    by simp
  with wf l have lt: "st_latt (structs h layer) < n_lattices h"
    by (simp add: get_struct_def)
  from fr have "erase_cursor (structs (bs_heap st) layer) = erase_cursor (structs h layer)"
    by (simp add: loop_frame_def)
  then have "st_latt (structs (bs_heap st) layer) = st_latt (structs h layer)"
    by (rule erase_cursor_fields)
  with fr lt have o: "lattices (bs_heap st) (st_latt (structs (bs_heap st) layer))
                   = lattices h (st_latt (structs h layer))"
    by (simp add: loop_frame_def)
  have "Lattice_list (x :: Lattice) = x" for x by (simp add: Lattice_list_def)
  then show ?thesis
    using n ne S la sl ll o oz l by (simp add: get_latt_def get_struct_def)
qed

lemma build_no_round:
  "nat (nb * bp) = 0 \<Longrightarrow> build h sequence interlayervectors bp nb = Inl UnboundLocalError"
  by (simp add: build_def build_init_def)

lemma build_empty_sequence:
  assumes "0 < nat (nb * bp)"
  shows "build h [] interlayervectors bp nb = Inl IndexError"
proof -
  from assms have "[0..<nat (nb * bp)] = 0 # [Suc 0..<nat (nb * bp)]" by (rule upt_conv_Cons)
  moreover have "PeriodicCycle_next (PeriodicCycle_init ([] :: (ref \<times> vec3) list)) = Inl IndexError"
    using advance_empty [of "PeriodicCycle_init ([] :: (ref \<times> vec3) list)" 0]
    by (simp add: PeriodicCycle_init_def)
  ultimately show ?thesis
    by (simp add: build_def build_step_def build_init_def)
qed


lemma getitem_not_exhausted: "getitem xs i \<noteq> Inl StopIteration"
  by (simp add: getitem_def)

lemma layer_loop_unfold:
  "layer_loop h layer vx vy oz sites =
     (if st_high (structs h layer) < st_current (structs h layer)
      then Inr (put_struct h layer ((structs h layer)\<lparr>st_current := 0\<rparr>), sites)
      else case getitem (st_sites (structs h layer)) (st_current (structs h layer)) of
             Inl e \<Rightarrow> Inl e
           | Inr site \<Rightarrow>
               (case emit_site (put_struct h layer
                        ((structs h layer)\<lparr>st_current := st_current (structs h layer) + 1\<rparr>))
                      layer vx vy oz site of
                  Inl e \<Rightarrow> Inl e
                | Inr (h', rv) \<Rightarrow> layer_loop h' layer vx vy oz (sites @ [rv])))"
  by (subst layer_loop.simps)
    (auto simp: Structure_next_def get_struct_def Let_def getitem_not_exhausted
      split: sum.splits)

text \<open>
  \<open>shifted_copy src rv dx dy dz\<close>: the site \<open>rv\<close> has the decorations of \<open>src\<close> and
  its absolute coordinates moved by \<open>dx, dy, dz\<close>.
\<close>

definition shifted_copy :: "Site \<Rightarrow> Site \<Rightarrow> real \<Rightarrow> real \<Rightarrow> real \<Rightarrow> bool" where
  "shifted_copy src rv dx dy dz \<longleftrightarrow>
     site_x rv = site_x src + dx \<and> site_y rv = site_y src + dy \<and>
     site_z rv = site_z src + dz \<and>
     site_name rv = site_name src \<and> site_specie rv = site_specie src \<and>
     site_occ rv = site_occ src \<and> site_biso rv = site_biso src"

lemma layer_loop_emits:
  "layer_loop h layer vx vy oz acc = Inr (h', sites') \<Longrightarrow>
   0 \<le> st_current (structs h layer) \<Longrightarrow>
   st_high (structs h layer) = int (length (st_sites (structs h layer))) - 1 \<Longrightarrow>
   \<forall>s\<in>set (st_sites (structs h layer)). s < n_siteobjs h \<Longrightarrow>
   \<exists>new. sites' = acc @ new \<and>
     length new = length (st_sites (structs h layer)) - nat (st_current (structs h layer)) \<and>
     (\<forall>i<length new.
        shifted_copy
          (siteobjs h (st_sites (structs h layer) ! (nat (st_current (structs h layer)) + i)))
          (siteobjs h' (new ! i))
          (vx * lat_a (structs h layer)) (vy * lat_b (structs h layer)) oz)"
proof (induction h layer vx vy oz acc rule: layer_loop.induct)
  case (1 h layer vx vy oz acc)
  let ?st = "structs h layer"
  let ?c = "st_current ?st"
  let ?ss = "st_sites ?st"
  note run = "1.prems"(1) and c0 = "1.prems"(2) and hi = "1.prems"(3) and al = "1.prems"(4)
  show ?case
  proof (cases "st_high ?st < ?c")
    case True
    with run have "sites' = acc" by (simp add: layer_loop_unfold)
    moreover from True hi have "length ?ss - nat ?c = 0" by simp
    ultimately show ?thesis by simp
  next
    case False
    with hi c0 have lt: "nat ?c < length ?ss" by simp
    let ?site = "?ss ! nat ?c"
    let ?st1 = "?st\<lparr>st_current := ?c + 1\<rparr>"
    have gi: "getitem ?ss ?c = Inr ?site"
      using lt c0 by (simp add: getitem_def)
    have nx: "Structure_next (get_struct h layer) = (?st1, Inr ?site)"
      using False gi by (simp add: Structure_next_def get_struct_def Let_def)
    from run False gi obtain h2 rv
      where em: "emit_site (put_struct h layer ?st1) layer vx vy oz ?site = Inr (h2, rv)"
        and rec: "layer_loop h2 layer vx vy oz (acc @ [rv]) = Inr (h', sites')"
      by (auto simp: layer_loop_unfold split: sum.splits)
    from em have nz: "lengths_nonzero (siteobjs h ?site)"
      by (simp add: emit_site_eq put_struct_def split: if_splits)
    from em nz have rv: "rv = n_siteobjs h" and n2: "n_siteobjs h2 = Suc (n_siteobjs h)"
      and st2: "structs h2 = (structs h)(layer := ?st1)"
      and old: "\<forall>r<n_siteobjs h. siteobjs h2 r = siteobjs h r"
      and cp: "shifted_copy (siteobjs h ?site) (siteobjs h2 rv)
                 (vx * lat_a ?st) (vy * lat_b ?st) oz"
      by (auto simp: emit_site_eq put_struct_def shifted_copy_def)
    from st2 have s2: "structs h2 layer = ?st1" by simp
    have "\<exists>new. sites' = (acc @ [rv]) @ new \<and>
      length new = length (st_sites (structs h2 layer)) - nat (st_current (structs h2 layer)) \<and>
      (\<forall>i<length new.
        shifted_copy
          (siteobjs h2 (st_sites (structs h2 layer) ! (nat (st_current (structs h2 layer)) + i)))
          (siteobjs h' (new ! i))
          (vx * lat_a (structs h2 layer)) (vy * lat_b (structs h2 layer)) oz)"
    proof (rule "1.IH" [OF nx [symmetric] refl em refl rec])
      show "0 \<le> st_current (structs h2 layer)" using c0 s2 by simp
      show "st_high (structs h2 layer) = int (length (st_sites (structs h2 layer))) - 1"
        using hi s2 by simp
      show "\<forall>s\<in>set (st_sites (structs h2 layer)). s < n_siteobjs h2"
        using al s2 n2 by auto
    qed
    then obtain new where sn: "sites' = (acc @ [rv]) @ new"
      and ln: "length new = length ?ss - nat (?c + 1)"
      and rl: "\<forall>i<length new.
        shifted_copy (siteobjs h2 (?ss ! (nat (?c + 1) + i))) (siteobjs h' (new ! i))
          (vx * lat_a ?st) (vy * lat_b ?st) oz"
      using s2 by auto
    from layer_loop_frame [OF rec] have "loop_frame h2 h'" by simp
    with rv n2 have keep: "siteobjs h' rv = siteobjs h2 rv" by (simp add: loop_frame_def)
    have len: "length (rv # new) = length ?ss - nat ?c"
      using ln lt c0 by (simp add: nat_add_distrib)
    have "shifted_copy (siteobjs h (?ss ! (nat ?c + i))) (siteobjs h' ((rv # new) ! i))
            (vx * lat_a ?st) (vy * lat_b ?st) oz" if "i < length (rv # new)" for i
    proof (cases i)
      case 0
      with cp keep show ?thesis by simp
    next
      case (Suc j)
      with that have j: "j < length new" by simp
      with ln c0 have "nat (?c + 1) + j < length ?ss" by simp
      with al old have e1: "siteobjs h2 (?ss ! (nat (?c + 1) + j)) = siteobjs h (?ss ! (nat (?c + 1) + j))"
        by simp
      have e2: "nat (?c + 1) + j = nat ?c + i" using Suc c0 by (simp add: nat_add_distrib)
      from rl j have "shifted_copy (siteobjs h2 (?ss ! (nat (?c + 1) + j))) (siteobjs h' (new ! j))
          (vx * lat_a ?st) (vy * lat_b ?st) oz" by blast
      then have "shifted_copy (siteobjs h (?ss ! (nat ?c + i))) (siteobjs h' (new ! j))
          (vx * lat_a ?st) (vy * lat_b ?st) oz" using e1 e2 by simp
      then show ?thesis using Suc by simp
    qed
    with sn len show ?thesis by (intro exI [of _ "rv # new"]) simp
  qed
qed

text \<open>Views of a site and of the result of a call, for the examples.\<close>

definition site_view :: "heap \<Rightarrow> ref \<Rightarrow> real list" where
  "site_view h r =
     [site_fx (get_site h r), site_fy (get_site h r), site_fz (get_site h r),
      site_x (get_site h r), site_y (get_site h r), site_z (get_site h r)]"

definition build_view :: "error + (heap \<times> ref) \<Rightarrow> error + (ref list \<times> real list list \<times> Lattice)" where
  "build_view m = bindE m (\<lambda>(h, S). Inr (st_sites (get_struct h S),
      map (site_view h) (st_sites (get_struct h S)), get_latt h (st_latt (get_struct h S))))"

text \<open>
  A call on the scenario: the Structure of the scenario as the only layer, with the
  column vector \<open>(1.3, 0, 1)\<close>, no interlayer vectors, one block of one layer.
\<close>

lemma build_scenario_view: "build_view (build scenario_heap [(0, (13 / 10, 0, 1))] None 1 1) =
   Inr ([2, 3], [[13 / 10, 1 / 10, 1 / 3, 6409 / 1000, 57 / 200, 1 / 2],
                 [13 / 10, 1 / 10, 2 / 3, 6409 / 1000, 57 / 200, 1]],
        Lattice_init (493 / 100) (57 / 20) (3 / 2) 90 90 90)"
  by (simp add: build_def build_init_def interlayer_default_def build_step_def
      PeriodicCycle_next_def PeriodicCycle_init_def getitem_def vec_z_def vec_add_def
      layer_loop_unfold emit_site_eq Structure_init_eq scenario_heap_simps build_view_def
      site_view_def push_sites_def reassociate_def Lattice_list_def Let_def)

subsection \<open>When build returns\<close>

text \<open>
  A layer is ready in a store when the cursor of its iterator is at rest and its sites
  are allocated objects with lengths that are not zero.
\<close>

definition layer_ready :: "heap \<Rightarrow> ref \<Rightarrow> bool" where
  "layer_ready h layer \<longleftrightarrow>
     st_current (get_struct h layer) = 0 \<and>
     st_high (get_struct h layer) = int (length (st_sites (get_struct h layer))) - 1 \<and>
     (\<forall>s\<in>set (st_sites (get_struct h layer)).
        s < n_siteobjs h \<and> lengths_nonzero (get_site h s))"

lemma layer_loop_other_structs:
  "layer_loop h layer vx vy oz sites = Inr (h', sites') \<Longrightarrow>
     \<forall>r. r \<noteq> layer \<longrightarrow> structs h' r = structs h r"
proof (induction h layer vx vy oz sites rule: layer_loop.induct)
  case (1 h layer vx vy oz sites)
  obtain st' res where nx: "Structure_next (get_struct h layer) = (st', res)"
    by (cases "Structure_next (get_struct h layer)")
  show ?case
  proof (cases res)
    case (Inl e)
    with "1.prems" nx have "h' = put_struct h layer st'"
      by (auto simp: layer_loop.simps [of h] split: if_splits)
    then show ?thesis by (simp add: put_struct_def)
  next
    case (Inr site)
    with "1.prems" nx obtain h2 rv
      where em: "emit_site (put_struct h layer st') layer vx vy oz site = Inr (h2, rv)"
        and rec: "layer_loop h2 layer vx vy oz (sites @ [rv]) = Inr (h', sites')"
      by (auto simp: layer_loop.simps [of h] split: sum.splits)
    from emit_site_structs [OF em] have "structs h2 = structs (put_struct h layer st')" .
    with "1.IH" [OF nx [symmetric] Inr em refl rec] show ?thesis
      by (simp add: put_struct_def)
  qed
qed

lemma layer_loop_returns:
  "0 \<le> st_current (structs h layer) \<Longrightarrow>
   st_high (structs h layer) = int (length (st_sites (structs h layer))) - 1 \<Longrightarrow>
   \<forall>s\<in>set (st_sites (structs h layer)). s < n_siteobjs h \<and> lengths_nonzero (siteobjs h s) \<Longrightarrow>
   \<exists>h' sites'. layer_loop h layer vx vy oz acc = Inr (h', sites') \<and>
      st_current (structs h' layer) = 0"
proof (induction "length (st_sites (structs h layer)) - nat (st_current (structs h layer))"
    arbitrary: h acc)
  case 0
  then have "st_high (structs h layer) < st_current (structs h layer)" by simp
  then show ?case by (simp add: layer_loop_unfold put_struct_def)
next
  case (Suc d)
  let ?st = "structs h layer"
  let ?c = "st_current ?st"
  let ?ss = "st_sites ?st"
  let ?st1 = "?st\<lparr>st_current := ?c + 1\<rparr>"
  let ?h1 = "put_struct h layer ?st1"
  from Suc.hyps(2) Suc.prems(1) have lt: "nat ?c < length ?ss" by simp
  with Suc.prems(1,2) have nh: "\<not> st_high ?st < ?c" by simp
  have gi: "getitem ?ss ?c = Inr (?ss ! nat ?c)"
    using lt Suc.prems(1) by (simp add: getitem_def)
  from lt have "?ss ! nat ?c \<in> set ?ss" by simp
  with Suc.prems(3) have nz: "lengths_nonzero (siteobjs h (?ss ! nat ?c))" by blast
  obtain h2 rv where em: "emit_site ?h1 layer vx vy oz (?ss ! nat ?c) = Inr (h2, rv)"
    using nz by (simp add: emit_site_eq put_struct_def)
  from emit_site_structs [OF em] have s2: "structs h2 layer = ?st1"
    by (simp add: put_struct_def)
  from emit_site_frame [OF em] have n2: "n_siteobjs h2 = Suc (n_siteobjs h)"
    and f2: "loop_frame ?h1 h2" by (simp_all add: put_struct_def)
  from f2 have old: "\<forall>r<n_siteobjs h. siteobjs h2 r = siteobjs h r"
    by (simp add: loop_frame_def put_struct_def)
  have "\<exists>h' sites'. layer_loop h2 layer vx vy oz (acc @ [rv]) = Inr (h', sites') \<and>
      st_current (structs h' layer) = 0"
  proof (rule Suc.hyps(1))
    show "d = length (st_sites (structs h2 layer)) - nat (st_current (structs h2 layer))"
      using Suc.hyps(2) Suc.prems(1) s2 by (simp add: nat_add_distrib)
    show "0 \<le> st_current (structs h2 layer)" using Suc.prems(1) s2 by simp
    show "st_high (structs h2 layer) = int (length (st_sites (structs h2 layer))) - 1"
      using Suc.prems(2) s2 by simp
    show "\<forall>s\<in>set (st_sites (structs h2 layer)).
            s < n_siteobjs h2 \<and> lengths_nonzero (siteobjs h2 s)"
      using Suc.prems(3) s2 n2 old by auto
  qed
  then show ?case using nh gi em by (simp add: layer_loop_unfold)
qed

lemma layer_loop_keeps_ready:
  assumes run: "layer_loop h layer vx vy oz acc = Inr (h', sites')"
    and cur: "st_current (structs h' layer) = 0"
    and rdy: "layer_ready h l"
  shows "layer_ready h' l"
proof -
  from layer_loop_frame [OF run] have fr: "loop_frame h h'" by simp
  then have e: "erase_cursor (structs h' l) = erase_cursor (structs h l)"
    and m: "n_siteobjs h \<le> n_siteobjs h'"
    and old: "\<forall>r<n_siteobjs h. siteobjs h' r = siteobjs h r"
    by (simp_all add: loop_frame_def)
  from erase_cursor_fields [OF e]
  have f: "st_sites (structs h' l) = st_sites (structs h l)"
    "st_high (structs h' l) = st_high (structs h l)" by simp_all
  have c: "st_current (structs h' l) = 0"
  proof (cases "l = layer")
    case True
    with cur show ?thesis by simp
  next
    case False
    with layer_loop_other_structs [OF run] rdy show ?thesis
      by (simp add: layer_ready_def get_struct_def)
  qed
  from rdy f c m old show ?thesis
    by (auto simp: layer_ready_def get_struct_def get_site_def)
qed


lemma pc_at_next_returns:
  assumes "pc_at xs k pc" and "xs \<noteq> []"
  shows "\<exists>pc'. PeriodicCycle_next pc = Inr (xs ! (k mod length xs), pc')"
  using PeriodicCycle_next_ok [OF assms(2), of pc] assms(1) by (auto simp: pc_at_def)

lemma build_step_returns:
  assumes ss: "pc_at sequence k (bs_ss st)" and ne: "sequence \<noteq> []"
    and iv: "pc_at ivs j (bs_iv st)" and ie: "ivs \<noteq> []" and bp: "bp \<noteq> 0"
    and rdy: "\<forall>p\<in>set sequence. layer_ready (bs_heap st) (fst p)"
  shows "\<exists>st'. build_step bp k st = Inr st' \<and>
           (\<forall>p\<in>set sequence. layer_ready (bs_heap st') (fst p))"
proof -
  obtain layer vx vy vz where el: "sequence ! (k mod length sequence) = (layer, (vx, vy, vz))"
    by (metis prod_cases3)
  from pc_at_next_returns [OF ss ne] el obtain ss'
    where nx: "PeriodicCycle_next (bs_ss st) = Inr ((layer, (vx, vy, vz)), ss')" by auto
  from ne have "sequence ! (k mod length sequence) \<in> set sequence" by simp
  with rdy el have lr: "layer_ready (bs_heap st) layer" by force
  then have "\<exists>h' sites'. layer_loop (bs_heap st) layer vx vy (vec_z (bs_origin st)) (bs_sites st)
       = Inr (h', sites') \<and> st_current (structs h' layer) = 0"
    by (intro layer_loop_returns) (simp_all add: layer_ready_def get_struct_def get_site_def)
  then obtain h' sites'
    where ll: "layer_loop (bs_heap st) layer vx vy (vec_z (bs_origin st)) (bs_sites st)
       = Inr (h', sites')" and cur: "st_current (structs h' layer) = 0" by blast
  from pc_at_next_returns [OF iv ie] obtain iv'
    where ni: "PeriodicCycle_next (bs_iv st) = Inr (ivs ! (j mod length ivs), iv')" by blast
  define origin' where
    "origin' = (if k \<noteq> 0 \<and> (int k + 1) mod bp = 0
                then vec_add (bs_origin st) (ivs ! (j mod length ivs)) else bs_origin st)"
  define iv'' where
    "iv'' = (if k \<noteq> 0 \<and> (int k + 1) mod bp = 0 then iv' else bs_iv st)"
  have inj: "(if k \<noteq> 0
            then bindE (py_mod (int k + 1) bp) (\<lambda>m.
                   if m = 0
                   then bindE (PeriodicCycle_next (bs_iv st))
                          (\<lambda>(v, iv'). Inr (vec_add (bs_origin st) v, iv'))
                   else Inr (bs_origin st, bs_iv st))
            else Inr (bs_origin st, bs_iv st)) = Inr (origin', iv'')"
    using bp ni by (simp add: py_mod_def origin'_def iv''_def)
  have step: "build_step bp k st = Inr \<lparr>bs_heap = h', bs_ss = ss', bs_iv = iv'',
          bs_origin = vec_add origin' (0, 0, vz * lat_c (get_struct h' layer)),
          bs_sites = sites', bs_layer = Some layer\<rparr>"
    unfolding build_step_def nx ll inj bindE_Inr prod.case by (rule refl)
  have "\<forall>p\<in>set sequence. layer_ready h' (fst p)"
    using layer_loop_keeps_ready [OF ll cur] rdy by blast
  with step show ?thesis by simp
qed

lemma build_loop_returns:
  assumes ne: "sequence \<noteq> []" and ie: "ivs \<noteq> []" and bp: "bp \<noteq> 0"
  shows "build_inv h0 sequence ivs bp i st \<Longrightarrow>
     \<forall>p\<in>set sequence. layer_ready (bs_heap st) (fst p) \<Longrightarrow> i \<le> n \<Longrightarrow>
     \<exists>st'. build_loop bp [i..<n] st = Inr st'"
proof (induction "n - i" arbitrary: i st)
  case 0
  then show ?case by simp
next
  case (Suc d)
  then have lt: "i < n" by simp
  then have u: "[i..<n] = i # [Suc i..<n]" by (rule upt_conv_Cons)
  from Suc.prems(1) have ss: "pc_at sequence i (bs_ss st)"
    and iv: "pc_at ivs (injections bp i) (bs_iv st)" by (simp_all add: build_inv_def)
  from build_step_returns [OF ss ne iv ie bp Suc.prems(2)] obtain st1
    where s1: "build_step bp i st = Inr st1"
      and r1: "\<forall>p\<in>set sequence. layer_ready (bs_heap st1) (fst p)" by blast
  from build_step_inv [OF Suc.prems(1) s1] have i1: "build_inv h0 sequence ivs bp (Suc i) st1" .
  have "d = n - Suc i" using Suc.hyps(2) by simp
  from Suc.hyps(1) [OF this i1 r1] lt obtain st'
    where "build_loop bp [Suc i..<n] st1 = Inr st'" by auto
  with s1 u show ?case by simp
qed

text \<open>
  When \<^verbatim>\<open>build\<close> returns: at least one round, a sequence and interlayer vectors that
  are not empty, layers at rest whose sites have lengths that are not zero, and a
  result lattice whose lengths are not zero.
\<close>

lemma build_returns:
  assumes n: "0 < nb * bp" and ne: "sequence \<noteq> []"
    and ie: "interlayer_default interlayervectors \<noteq> []"
    and rdy: "\<forall>p\<in>set sequence. layer_ready h (fst p)"
    and wf: "\<forall>p \<in> set sequence. st_latt (get_struct h (fst p)) < n_lattices h"
    and nz: "lengths_nonzero
       ((get_latt h (st_latt (get_struct h
           (fst (sequence ! ((nat (nb * bp) - 1) mod length sequence))))))
         \<lparr>lat_c := stack_height h sequence (interlayer_default interlayervectors) bp
                     (nat (nb * bp))\<rparr>)"
  shows "\<exists>h' S. build h sequence interlayervectors bp nb = Inr (h', S)"
proof -
  let ?ivs = "interlayer_default interlayervectors"
  let ?n = "nat (nb * bp)"
  from n have bp: "bp \<noteq> 0" by auto
  from n have n0: "?n \<noteq> 0" by simp
  have r0: "\<forall>p\<in>set sequence. layer_ready (bs_heap (build_init h sequence ?ivs)) (fst p)"
    using rdy by (simp add: build_init_def)
  from build_loop_returns [OF ne ie bp build_inv_init r0, of ?n] obtain st
    where lp: "build_loop bp [0..<?n] (build_init h sequence ?ivs) = Inr st" by auto
  from build_loop_inv [OF build_inv_init lp] have inv: "build_inv h sequence ?ivs bp ?n st"
    by simp
  let ?layer = "fst (sequence ! ((?n - 1) mod length sequence))"
  from inv n0 have ly: "bs_layer st = Some ?layer"
    and fr: "loop_frame h (bs_heap st)"
    and oz: "vec_z (bs_origin st) = stack_height h sequence ?ivs bp ?n"
    by (simp_all add: build_inv_def)
  from ne have "sequence ! ((?n - 1) mod length sequence) \<in> set sequence" by simp
  with wf have lt: "st_latt (structs h ?layer) < n_lattices h" by (simp add: get_struct_def)
  from fr have "erase_cursor (structs (bs_heap st) ?layer) = erase_cursor (structs h ?layer)"
    by (simp add: loop_frame_def)
  then have "st_latt (structs (bs_heap st) ?layer) = st_latt (structs h ?layer)"
    by (rule erase_cursor_fields)
  with fr lt have o: "lattices (bs_heap st) (st_latt (structs (bs_heap st) ?layer))
                   = lattices h (st_latt (structs h ?layer))"
    by (simp add: loop_frame_def)
  have "Lattice_list (x :: Lattice) = x" for x by (simp add: Lattice_list_def)
  with nz o oz have "lengths_nonzero
     ((Lattice_list (lattices (bs_heap st) (st_latt (structs (bs_heap st) ?layer))))
        \<lparr>lat_c := vec_z (bs_origin st)\<rparr>)"
    by (simp add: get_latt_def get_struct_def)
  then show ?thesis
    by (simp add: build_def lp ly Structure_init_eq heap_defs Let_def)
qed

subsection \<open>Examples of calls\<close>

lemmas build_eval = build_def build_init_def interlayer_default_def build_step_def
  PeriodicCycle_next_def PeriodicCycle_init_def getitem_def vec_z_def vec_add_def py_mod_def
  layer_loop_unfold emit_site_eq Structure_init_eq heap_empty_def heap_defs Lattice_init_def
  lengths_nonzero_def build_view_def site_view_def push_sites_def reassociate_def
  Lattice_list_def Let_def

text \<open>
  The second scenario of the specification: two unit layers over one lattice with
  \<open>c = 1\<close>, an \<^verbatim>\<open>O\<close> site and a \<^verbatim>\<open>Mn\<close> site at \<open>fz = 0\<close>, stacked in the columns
  \<open>(0, 0, 1)\<close> and \<open>(-1/3, 0, 1)\<close> with \<^verbatim>\<open>blockperiod = 2\<close>, \<^verbatim>\<open>Nblocks = 1\<close> and no
  interlayer vectors.
\<close>

definition unit_heap :: heap where
  "unit_heap =
     \<lparr>lattices = (lattices heap_empty)(0 := Lattice_init 5 3 1 90 90 90),
      n_lattices = 1,
      siteobjs = (siteobjs heap_empty)
        (0 := \<lparr>lat_a = 5, lat_b = 3, lat_c = 1, lat_al = 90, lat_be = 90, lat_ga = 90,
               site_latt = 0, site_name = ''O'', site_specie = ''O'', site_occ = 1,
               site_biso = 1, site_fx = 0, site_fy = 0, site_fz = 0,
               site_x = 0, site_y = 0, site_z = 0\<rparr>,
         1 := \<lparr>lat_a = 5, lat_b = 3, lat_c = 1, lat_al = 90, lat_be = 90, lat_ga = 90,
               site_latt = 0, site_name = ''Mn'', site_specie = ''Mn'', site_occ = 1,
               site_biso = 1, site_fx = 0, site_fy = 0, site_fz = 0,
               site_x = 0, site_y = 0, site_z = 0\<rparr>),
      n_siteobjs = 2,
      structs = (structs heap_empty)
        (0 := \<lparr>lat_a = 5, lat_b = 3, lat_c = 1, lat_al = 90, lat_be = 90, lat_ga = 90,
               st_sites = [0], st_latt = 0, st_current = 0, st_lo = 0, st_high = 0\<rparr>,
         1 := \<lparr>lat_a = 5, lat_b = 3, lat_c = 1, lat_al = 90, lat_be = 90, lat_ga = 90,
               st_sites = [1], st_latt = 0, st_current = 0, st_lo = 0, st_high = 0\<rparr>),
      n_structs = 2\<rparr>"

definition unit_sequence :: "(ref \<times> vec3) list" where
  "unit_sequence = [(0, (0, 0, 1)), (1, (- 1 / 3, 0, 1))]"

lemma upt_0_2: "[0..<2] = [0, 1]"
  by (simp add: numeral_2_eq_2)

lemma build_unit_view:
  "build_view (build unit_heap unit_sequence None 2 1) =
     Inr ([2, 3], [[0, 0, 0, 0, 0, 0], [- 1 / 3, 0, 1 / 2, - 5 / 3, 0, 1]],
          Lattice_init 5 3 2 90 90 90)"
  by (simp add: build_eval unit_heap_def unit_sequence_def upt_0_2)

lemma build_unit_returns: "\<exists>h' S. build unit_heap unit_sequence None 2 1 = Inr (h', S)"
  using build_unit_view by (cases "build unit_heap unit_sequence None 2 1") (auto simp: build_view_def)

lemma build_scenario_returns:
  "\<exists>h' S. build scenario_heap [(0, (13 / 10, 0, 1))] None 1 1 = Inr (h', S)"
  using build_scenario_view
  by (cases "build scenario_heap [(0, (13 / 10, 0, 1))] None 1 1") (auto simp: build_view_def)


subsection \<open>The sites a round emits\<close>

lemma build_step_layer_loop:
  assumes "build_step bp idx st = Inr st'"
    and "PeriodicCycle_next (bs_ss st) = Inr ((layer, (vx, vy, vz)), ss')"
  shows "layer_loop (bs_heap st) layer vx vy (vec_z (bs_origin st)) (bs_sites st)
           = Inr (bs_heap st', bs_sites st')"
  using assms by (auto simp: build_step_def bindE_eq_Inr split: prod.splits)

text \<open>
  Against C1 as stated (the copy's \<open>z\<close> set to the \<open>z\<close> of the origin), the first round
  of \<^verbatim>\<open>build\<close> on the scenario, with the column vector \<open>(0, 0, 1)\<close>:
  the origin is \<open>(0, 0, 0)\<close>, and the copies of the two sites have \<open>z = 1/2\<close> and
  \<open>z = 1\<close>, the \<open>z\<close> of the sites they are copied from, not the \<open>z\<close> of the origin.
\<close>

theorem emitted_z_is_origin_z_counterexample:
  "vec_z (bs_origin (build_init scenario_heap [(0, (0, 0, 1))] [(0, 0, 0)])) = 0 \<and>
   bindE (build_step 1 0 (build_init scenario_heap [(0, (0, 0, 1))] [(0, 0, 0)]))
     (\<lambda>st. Inr (map (\<lambda>r. site_z (get_site (bs_heap st) r)) (bs_sites st))) = Inr [1 / 2, 1]"
  by (simp add: build_eval scenario_heap_def)

text \<open>
  C1, amended. In a round of \<^verbatim>\<open>build\<close> that draws \<open>(layer, vector)\<close>, for a layer whose
  cursor is at rest and whose sites are allocated, the round appends one copy for each
  site of the layer, in order; each copy has the decorations of its site, its absolute
  \<open>x\<close> moved by \<open>vector.x * layer.a\<close>, its absolute \<open>y\<close> moved by \<open>vector.y * layer.b\<close>,
  and its absolute \<open>z\<close> moved by (not set to) the \<open>z\<close> of the origin accumulated before
  the round.
\<close>

theorem build_step_emits_shifted_copies:
  assumes "build_step bp idx st = Inr st'"
    and "PeriodicCycle_next (bs_ss st) = Inr ((layer, (vx, vy, vz)), ss')"
    and "st_current (get_struct (bs_heap st) layer) = 0"
    and "st_high (get_struct (bs_heap st) layer) =
           int (length (st_sites (get_struct (bs_heap st) layer))) - 1"
    and "\<forall>s\<in>set (st_sites (get_struct (bs_heap st) layer)). s < n_siteobjs (bs_heap st)"
  shows "\<exists>new. bs_sites st' = bs_sites st @ new \<and>
     length new = length (st_sites (get_struct (bs_heap st) layer)) \<and>
     (\<forall>i<length new.
        shifted_copy (get_site (bs_heap st) (st_sites (get_struct (bs_heap st) layer) ! i))
          (get_site (bs_heap st') (new ! i))
          (vx * lat_a (get_struct (bs_heap st) layer))
          (vy * lat_b (get_struct (bs_heap st) layer))
          (vec_z (bs_origin st)))"
proof -
  from build_step_layer_loop [OF assms(1,2)]
  have "layer_loop (bs_heap st) layer vx vy (vec_z (bs_origin st)) (bs_sites st)
           = Inr (bs_heap st', bs_sites st')" .
  from layer_loop_emits [OF this] assms(3-5) show ?thesis
    by (simp add: get_struct_def get_site_def)
qed

theorem build_step_emits_shifted_copies_witness:
  "\<exists>st'. build_step 1 0 (build_init scenario_heap [(0, (13 / 10, 0, 1))] [(0, 0, 0)]) = Inr st' \<and>
     bs_sites st' = [2, 3] \<and>
     shifted_copy (get_site scenario_heap 0) (get_site (bs_heap st') 2) (13 / 10 * (493 / 100)) 0 0 \<and>
     site_x (get_site (bs_heap st') 2) = 6409 / 1000 \<and>
     site_z (get_site (bs_heap st') 2) = 1 / 2"
proof -
  let ?st = "build_init scenario_heap [(0, (13 / 10, 0, 1))] [(0, 0, 0)]"
  obtain st' where step: "build_step 1 0 ?st = Inr st'" and si: "bs_sites st' = [2, 3]"
    by (cases "build_step 1 0 ?st") (simp_all add: build_eval scenario_heap_def)
  have nx: "PeriodicCycle_next (bs_ss ?st)
      = Inr ((0, (13 / 10, 0, 1)),
          \<lparr>pc_iterable = [(0, (13 / 10, 0, 1))], pc_current = 1, pc_low = 0, pc_high = 0\<rparr>)"
    by (simp add: build_eval)
  have h: "bs_heap ?st = scenario_heap" "bs_sites ?st = []" "vec_z (bs_origin ?st) = 0"
    by (simp_all add: build_init_def vec_z_def)
  have c: "st_current (get_struct (bs_heap ?st) 0) = 0"
    and hi: "st_high (get_struct (bs_heap ?st) 0) =
           int (length (st_sites (get_struct (bs_heap ?st) 0))) - 1"
    and al: "\<forall>s\<in>set (st_sites (get_struct (bs_heap ?st) 0)). s < n_siteobjs (bs_heap ?st)"
    and v: "st_sites (get_struct scenario_heap 0) = [0, 1]"
      "lat_a (get_struct scenario_heap 0) = 493 / 100"
      "site_x (get_site scenario_heap 0) = 0" "site_z (get_site scenario_heap 0) = 1 / 2"
    by (simp_all add: build_init_def scenario_heap_simps)
  from build_step_emits_shifted_copies [OF step nx c hi al] obtain new
    where n: "bs_sites st' = bs_sites ?st @ new"
      and r: "\<forall>i<length new.
        shifted_copy (get_site (bs_heap ?st) (st_sites (get_struct (bs_heap ?st) 0) ! i))
          (get_site (bs_heap st') (new ! i))
          (13 / 10 * lat_a (get_struct (bs_heap ?st) 0))
          (0 * lat_b (get_struct (bs_heap ?st) 0))
          (vec_z (bs_origin ?st))" by blast
  from n si have new: "new = [2, 3]" by (simp add: h)
  from r new have "shifted_copy (get_site scenario_heap 0) (get_site (bs_heap st') 2)
      (13 / 10 * (493 / 100)) 0 0"
    by (auto simp: h v dest: spec [of _ 0])
  moreover from this have "site_x (get_site (bs_heap st') 2) = 6409 / 1000"
    "site_z (get_site (bs_heap st') 2) = 1 / 2"
    by (simp_all add: shifted_copy_def v)
  ultimately show ?thesis using step si by blast
qed


subsection \<open>The lattice of the result\<close>

lemma stack_height_unit_layers:
  assumes "sequence \<noteq> []"
    and "\<forall>p\<in>set sequence. lat_c (get_struct h (fst p)) = 1 \<and> vec_z (snd p) = 1"
  shows "stack_height h sequence [(0, 0, 0)] bp n = real n"
proof -
  have "sequence ! (idx mod length sequence) \<in> set sequence" for idx
    using assms(1) by simp
  with assms(2) have "vec_z (snd (sequence ! (idx mod length sequence))) *
      lat_c (get_struct h (fst (sequence ! (idx mod length sequence)))) = 1" for idx
    by simp
  then show ?thesis by (simp add: stack_height_def vec_z_def)
qed

text \<open>
  C2. When \<^verbatim>\<open>build\<close> returns, it has run at least one round, and the lattice of the
  returned Structure is the lattice of the layer visited last (\<open>a, b, alpha, beta,
  gamma\<close> copied) with \<open>c\<close> the accumulated height: the sum over the rounds of
  \<open>vector.z * layer.c\<close> plus the \<open>z\<close> of the interlayer vectors injected. For \<open>M\<close> layers
  with \<open>c = 1\<close> and \<open>vector.z = 1\<close>, \<^verbatim>\<open>blockperiod = M\<close>, \<^verbatim>\<open>Nblocks = 1\<close> and no
  interlayer vectors, \<open>c\<close> is \<open>M\<close>. The lattice of every layer is an allocated object.
\<close>

theorem build_lattice_is_last_layer_with_stack_height:
  assumes b: "build h sequence interlayervectors bp nb = Inr (h', S)"
    and wf: "\<forall>p \<in> set sequence. st_latt (get_struct h (fst p)) < n_lattices h"
  shows "0 < nat (nb * bp) \<and> sequence \<noteq> [] \<and>
     Lattice_list (get_struct h' S) = get_latt h' (st_latt (get_struct h' S)) \<and>
     get_latt h' (st_latt (get_struct h' S)) =
       (get_latt h (st_latt (get_struct h
           (fst (sequence ! ((nat (nb * bp) - 1) mod length sequence))))))
         \<lparr>lat_c := stack_height h sequence (interlayer_default interlayervectors) bp
                     (nat (nb * bp))\<rparr> \<and>
     ((\<forall>p\<in>set sequence. lat_c (get_struct h (fst p)) = 1 \<and> vec_z (snd p) = 1) \<and>
      interlayervectors = None \<and> bp = int (length sequence) \<and> nb = 1 \<longrightarrow>
      lat_c (get_latt h' (st_latt (get_struct h' S))) = real (length sequence))"
proof -
  note main = build_lattice_lemma [OF b wf]
  then have ne: "sequence \<noteq> []" by simp
  have "lat_c (get_latt h' (st_latt (get_struct h' S))) = real (length sequence)"
    if u: "\<forall>p\<in>set sequence. lat_c (get_struct h (fst p)) = 1 \<and> vec_z (snd p) = 1"
      and i: "interlayervectors = None" and p: "bp = int (length sequence)" and o: "nb = 1"
  proof -
    have "stack_height h sequence (interlayer_default interlayervectors) bp (nat (nb * bp))
            = real (nat (nb * bp))"
      using stack_height_unit_layers [OF ne u] i by (simp add: interlayer_default_def)
    with main p o show ?thesis by simp
  qed
  with main show ?thesis by blast
qed

theorem build_lattice_is_last_layer_with_stack_height_witness:
  "\<exists>h' S. build unit_heap unit_sequence None 2 1 = Inr (h', S) \<and>
     (\<forall>p \<in> set unit_sequence. st_latt (get_struct unit_heap (fst p)) < n_lattices unit_heap \<and>
        lat_c (get_struct unit_heap (fst p)) = 1 \<and> vec_z (snd p) = 1) \<and>
     (2 :: int) = int (length unit_sequence) \<and>
     get_latt h' (st_latt (get_struct h' S)) = Lattice_init 5 3 2 90 90 90"
proof -
  from build_unit_returns obtain h' S
    where b: "build unit_heap unit_sequence None 2 1 = Inr (h', S)" by blast
  have wf: "\<forall>p \<in> set unit_sequence. st_latt (get_struct unit_heap (fst p)) < n_lattices unit_heap"
    and u: "\<forall>p\<in>set unit_sequence. lat_c (get_struct unit_heap (fst p)) = 1 \<and> vec_z (snd p) = 1"
    and l: "(2 :: int) = int (length unit_sequence)"
    by (simp_all add: unit_sequence_def unit_heap_def heap_empty_def heap_defs vec_z_def)
  note t = build_lattice_is_last_layer_with_stack_height [OF b wf]
  from t u l have c: "lat_c (get_latt h' (st_latt (get_struct h' S))) = real (length unit_sequence)"
    by blast
  from t have e: "get_latt h' (st_latt (get_struct h' S)) =
       (get_latt unit_heap (st_latt (get_struct unit_heap
           (fst (unit_sequence ! ((nat (1 * 2) - 1) mod length unit_sequence))))))
         \<lparr>lat_c := stack_height unit_heap unit_sequence (interlayer_default None) 2
                     (nat (1 * 2))\<rparr>"
    by blast
  have "get_latt unit_heap (st_latt (get_struct unit_heap
           (fst (unit_sequence ! ((nat (1 * 2) - 1) mod length unit_sequence)))))
         = Lattice_init 5 3 1 90 90 90"
    by (simp add: unit_sequence_def unit_heap_def heap_empty_def heap_defs)
  with e have "get_latt h' (st_latt (get_struct h' S)) =
     (Lattice_init 5 3 1 90 90 90)\<lparr>lat_c := lat_c (get_latt h' (st_latt (get_struct h' S)))\<rparr>"
    by simp
  with c have "get_latt h' (st_latt (get_struct h' S)) = Lattice_init 5 3 2 90 90 90"
    by (simp add: unit_sequence_def Lattice_init_def)
  with b wf u l show ?thesis by blast
qed


subsection \<open>The inputs after a call\<close>

lemma PeriodicCycle_next_iterable:
  "PeriodicCycle_next pc = Inr (v, pc') \<Longrightarrow> pc_iterable pc' = pc_iterable pc"
  by (auto simp: PeriodicCycle_next_def Let_def bindE_eq_Inr split: if_splits)

lemma build_step_iterables:
  assumes "build_step bp idx st = Inr st'"
  shows "pc_iterable (bs_ss st') = pc_iterable (bs_ss st) \<and>
         pc_iterable (bs_iv st') = pc_iterable (bs_iv st)"
  using assms
  by (auto simp: build_step_def bindE_eq_Inr py_mod_def split: prod.splits if_splits
      dest: PeriodicCycle_next_iterable)

lemma build_loop_iterables:
  "build_loop bp idxs st = Inr st' \<Longrightarrow>
     pc_iterable (bs_ss st') = pc_iterable (bs_ss st) \<and>
     pc_iterable (bs_iv st') = pc_iterable (bs_iv st)"
proof (induction idxs arbitrary: st)
  case Nil
  then show ?case by simp
next
  case (Cons idx idxs)
  from Cons.prems obtain st1 where s: "build_step bp idx st = Inr st1"
    and r: "build_loop bp idxs st1 = Inr st'" by (auto simp: bindE_eq_Inr)
  from build_step_iterables [OF s] Cons.IH [OF r] show ?case by simp
qed

text \<open>
  C8. A call of \<^verbatim>\<open>build\<close> that returns leaves every Lattice and every Site that was
  allocated before the call as it was (so the site list of every input layer, with
  each site's species, occupancy, name and coordinates, and its lattice), and every
  Structure as it was apart from the cursor of its iterator (\<open>erase_cursor\<close>: its site
  list, its lattice reference and its six scalars stay); the returned Structure is a
  new object. The loop never assigns to the two sequences its cursors run over. The
  sites the call writes to are the copies it has allocated.
\<close>

theorem build_leaves_inputs_unchanged:
  assumes "build h sequence interlayervectors bp nb = Inr (h', S)"
  shows "(\<forall>r<n_lattices h. get_latt h' r = get_latt h r) \<and>
         (\<forall>r<n_siteobjs h. get_site h' r = get_site h r) \<and>
         (\<forall>r<n_structs h. erase_cursor (get_struct h' r) = erase_cursor (get_struct h r)) \<and>
         S = n_structs h \<and>
         (\<forall>st. build_loop bp [0..<nat (nb * bp)]
                  (build_init h sequence (interlayer_default interlayervectors)) = Inr st \<longrightarrow>
               pc_iterable (bs_ss st) = sequence \<and>
               pc_iterable (bs_iv st) = interlayer_default interlayervectors)"
proof -
  have "pc_iterable (bs_ss st) = sequence \<and>
        pc_iterable (bs_iv st) = interlayer_default interlayervectors"
    if "build_loop bp [0..<nat (nb * bp)]
          (build_init h sequence (interlayer_default interlayervectors)) = Inr st" for st
    using build_loop_iterables [OF that] by (simp add: build_init_def PeriodicCycle_init_def)
  with build_frame_lemma [OF assms] show ?thesis by blast
qed

theorem build_leaves_inputs_unchanged_witness:
  "\<exists>h' S. build scenario_heap [(0, (13 / 10, 0, 1))] None 1 1 = Inr (h', S) \<and> S = 1 \<and>
     get_latt h' 0 = get_latt scenario_heap 0 \<and>
     get_site h' 0 = get_site scenario_heap 0 \<and> get_site h' 1 = get_site scenario_heap 1 \<and>
     site_fz (get_site h' 0) = 1 / 3 \<and>
     erase_cursor (get_struct h' 0) = erase_cursor (get_struct scenario_heap 0) \<and>
     st_sites (get_struct h' 0) = [0, 1]"
proof -
  from build_scenario_returns obtain h' S
    where b: "build scenario_heap [(0, (13 / 10, 0, 1))] None 1 1 = Inr (h', S)" by blast
  have n: "n_lattices scenario_heap = 1" "n_siteobjs scenario_heap = 2"
    "n_structs scenario_heap = 1"
    by (simp_all add: scenario_heap_def)
  from build_leaves_inputs_unchanged [OF b]
  have l: "\<forall>r<n_lattices scenario_heap. get_latt h' r = get_latt scenario_heap r"
    and s: "\<forall>r<n_siteobjs scenario_heap. get_site h' r = get_site scenario_heap r"
    and t: "\<forall>r<n_structs scenario_heap.
              erase_cursor (get_struct h' r) = erase_cursor (get_struct scenario_heap r)"
    and S: "S = n_structs scenario_heap"
    by blast+
  from l have l0: "get_latt h' 0 = get_latt scenario_heap 0" by (simp add: n)
  from s have s0: "get_site h' 0 = get_site scenario_heap 0"
    and s1: "get_site h' 1 = get_site scenario_heap 1" by (simp_all add: n)
  from t have t0: "erase_cursor (get_struct h' 0) = erase_cursor (get_struct scenario_heap 0)"
    by (simp add: n)
  from t0 have "st_sites (get_struct h' 0) = st_sites (get_struct scenario_heap 0)"
    by (rule erase_cursor_fields)
  then have ss: "st_sites (get_struct h' 0) = [0, 1]" by (simp add: scenario_heap_simps)
  have "site_fz (get_site scenario_heap 0) = 1 / 3" by (simp add: scenario_heap_simps)
  then have fz: "site_fz (get_site h' 0) = 1 / 3" unfolding s0 .
  from b S l0 s0 s1 fz t0 ss show ?thesis by (simp add: n)
qed

subsection \<open>No round, no layer\<close>

text \<open>
  Against C9 as stated (an empty Structure is returned): with an empty sequence and
  one round \<^verbatim>\<open>build\<close> raises \<^verbatim>\<open>IndexError\<close>; with
  \<^verbatim>\<open>Nblocks = 0\<close> it raises on the unbound variable \<^verbatim>\<open>layer\<close>. Neither call returns a
  Structure.
\<close>

theorem build_empty_returns_structure_counterexample:
  "build heap_empty [] None 1 1 = Inl IndexError \<and>
   build scenario_heap [(0, (0, 0, 1))] None 1 0 = Inl UnboundLocalError"
  by (simp add: build_no_round build_empty_sequence)

text \<open>
  C9, amended. A call of \<^verbatim>\<open>build\<close> with \<^verbatim>\<open>Nblocks * blockperiod\<close> not above zero runs
  no round and raises at \<^verbatim>\<open>layer.latt.list\<close>, the variable \<^verbatim>\<open>layer\<close> being unbound
  (\<^verbatim>\<open>UnboundLocalError\<close>); a call with an empty sequence and at least one round raises
  \<^verbatim>\<open>IndexError\<close> in the first round, when the cursor reads the sequence. No Structure
  is returned in either case.
\<close>

theorem build_without_round_or_layer_raises:
  "(nb * bp \<le> 0 \<longrightarrow>
      build h sequence interlayervectors bp nb = Inl UnboundLocalError) \<and>
   (0 < nb * bp \<longrightarrow> build h [] interlayervectors bp nb = Inl IndexError)"
  by (simp add: build_no_round build_empty_sequence)

theorem build_without_round_or_layer_raises_witness:
  "(3 :: int) * 0 \<le> 0 \<and>
   build scenario_heap [(0, (0, 0, 1))] (Some [(0, 0, 5)]) 0 3 = Inl UnboundLocalError \<and>
   (0 :: int) < 5 * 3 \<and>
   build scenario_heap [] (Some [(0, 0, 5)]) 3 5 = Inl IndexError"
  using build_without_round_or_layer_raises [of 3 0 scenario_heap "[(0, (0, 0, 1))]" "Some [(0, 0, 5)]"]
    build_without_round_or_layer_raises [of 5 3 scenario_heap "[(0, (0, 0, 1))]" "Some [(0, 0, 5)]"]
  by simp

subsection \<open>The periodic constraint\<close>

text \<open>
  C4. The call on the scenario with the column vector \<open>(1.3, 0, 1)\<close>: both copies have
  \<open>x = 1.3 * a\<close> and so \<open>fx = 1.3\<close> before the pass \<^verbatim>\<open>apply periodic constraint\<close>. The
  pass stores \<open>0.3\<close> into an array that \<^verbatim>\<open>site.fxyz\<close> has just built and that nothing
  holds, and the sites of the returned Structure have \<open>fx = 1.3\<close>, outside \<open>[0, 1)\<close>.
\<close>

theorem build_returns_fx_outside_unit_interval:
  "build_view (build scenario_heap [(0, (13 / 10, 0, 1))] None 1 1) =
     Inr ([2, 3], [[13 / 10, 1 / 10, 1 / 3, 6409 / 1000, 57 / 200, 1 / 2],
                   [13 / 10, 1 / 10, 2 / 3, 6409 / 1000, 57 / 200, 1]],
          Lattice_init (493 / 100) (57 / 20) (3 / 2) 90 90 90) \<and>
   written_arrays ((get_site scenario_heap 0)\<lparr>site_fx := 13 / 10\<rparr>) = [[3 / 10, 1 / 10, 1 / 3]] \<and>
   \<not> (13 / 10 :: real) < 1"
  by (simp add: build_scenario_view)
    (simp add: written_arrays_def Site_fxyz_def scenario_heap_simps enumerate_eq_zip)

end
